theory Spec2Isabelle
  imports Complex_Main
begin

section \<open>Windowed SLO publisher (slo\_lambda/src/windowed\_slo.py)\<close>

text \<open>
  A shallow embedding of the windowed SLI engine: metric queries against CloudWatch,
  composite metrics, the ratio of two composites, parsing of the Terraform-generated
  configuration and the publishing loop.

  Conventions of the embedding.
  \<^item> Every Python exception is a value of \<open>exc\<close>; a call that may raise returns
    \<open>exc + 'a\<close>, with \<open>Inl\<close> for the exception.
  \<^item> Python floats are modelled by \<open>real\<close>: rounding, infinities and NaN are not
    represented. Division by zero is written out.
  \<^item> The CloudWatch service and the boto3 client are an external oracle
    (\<open>backend\<close>) whose answers may depend on every call made so far; the calls
    made are logged in the \<open>world\<close>, together with the lines printed.
  \<^item> \<open>datetime.utcnow()\<close> is the parameter \<open>now\<close>, in microseconds since
    0001-01-01T00:00:00, read as constant over one run.
  \<^item> \<open>json.loads\<close>, \<open>int\<close> and \<open>float\<close> on strings are library functions taken as
    parameters (\<open>pylib\<close>).
\<close>

subsection \<open>Values\<close>

datatype exc =
    ZeroDivisionError
  | KeyError
  | IndexError
  | TypeError
  | ValueError
  | OverflowError
  | AttributeError
  | RuntimeError string
  | ClientError
  | BotoCoreError
  | OtherError

text \<open>What the boto3 client can raise: the two botocore base classes the publisher
  names in its handler, and anything else.\<close>

datatype bexc = BClientError | BBotoCoreError | BOther

fun of_bexc :: "bexc \<Rightarrow> exc" where
  "of_bexc BClientError = ClientError"
| "of_bexc BBotoCoreError = BotoCoreError"
| "of_bexc BOther = OtherError"

text \<open>The result of \<open>json.loads\<close>. An object is the list of its items in insertion
  order (a Python dict).\<close>

datatype json =
    JNull
  | JBool bool
  | JInt int
  | JFloat real
  | JStr string
  | JList "json list"
  | JObj "(string \<times> json) list"

text \<open>Python truthiness, as used by \<open>if extended_statistic:\<close> and \<open>elif statistic:\<close>.\<close>

fun truthy :: "json \<Rightarrow> bool" where
  "truthy JNull = False"
| "truthy (JBool b) = b"
| "truthy (JInt i) = (i \<noteq> 0)"
| "truthy (JFloat r) = (r \<noteq> 0)"
| "truthy (JStr s) = (s \<noteq> [])"
| "truthy (JList xs) = (xs \<noteq> [])"
| "truthy (JObj kvs) = (kvs \<noteq> [])"

record pylib =
  json_loads :: "string \<Rightarrow> json option"
  int_of_str :: "string \<Rightarrow> int option"
  float_of_str :: "string \<Rightarrow> real option"

text \<open>\<open>float(x)\<close>. An int beyond the double range raises OverflowError; a string that
  is not a float literal raises ValueError; None, lists and dicts raise TypeError.\<close>

definition py_float :: "pylib \<Rightarrow> json \<Rightarrow> exc + real" where
  "py_float lib x =
     (case x of
        JNull \<Rightarrow> Inl TypeError
      | JBool b \<Rightarrow> Inr (if b then 1 else 0)
      | JInt i \<Rightarrow> (if \<bar>i\<bar> \<ge> 2 ^ 1024 - 2 ^ 970 then Inl OverflowError else Inr (of_int i))
      | JFloat r \<Rightarrow> Inr r
      | JStr s \<Rightarrow> (case float_of_str lib s of None \<Rightarrow> Inl ValueError | Some r \<Rightarrow> Inr r)
      | JList _ \<Rightarrow> Inl TypeError
      | JObj _ \<Rightarrow> Inl TypeError)"

text \<open>Iteration over a value (\<open>for m in metrics\<close>): a list yields its elements, a dict
  its keys, a string its characters; anything else is not iterable.\<close>

definition py_iter :: "json \<Rightarrow> exc + json list" where
  "py_iter x =
     (case x of
        JList xs \<Rightarrow> Inr xs
      | JObj kvs \<Rightarrow> Inr (map (\<lambda>kv. JStr (fst kv)) kvs)
      | JStr s \<Rightarrow> Inr (map (\<lambda>c. JStr [c]) s)
      | _ \<Rightarrow> Inl TypeError)"

text \<open>Subscription \<open>d[k]\<close> of a dict with string keys by an arbitrary value: an
  unhashable key is a TypeError, an absent one a KeyError.\<close>

definition dict_getitem :: "(string \<times> 'v) list \<Rightarrow> json \<Rightarrow> exc + 'v" where
  "dict_getitem d k =
     (case k of
        JStr s \<Rightarrow> (case map_of d s of None \<Rightarrow> Inl KeyError | Some v \<Rightarrow> Inr v)
      | JList _ \<Rightarrow> Inl TypeError
      | JObj _ \<Rightarrow> Inl TypeError
      | _ \<Rightarrow> Inl KeyError)"

text \<open>Item assignment \<open>d[k] = v\<close>: an existing key keeps its place.\<close>

fun dict_setitem :: "(string \<times> 'v) list \<Rightarrow> string \<Rightarrow> 'v \<Rightarrow> (string \<times> 'v) list" where
  "dict_setitem [] k v = [(k, v)]"
| "dict_setitem ((k', v') # d) k v =
     (if k' = k then (k, v) # d else (k', v') # dict_setitem d k v)"

subsection \<open>Dates\<close>

definition us_per_day :: int where
  "us_per_day = 86400000000"

text \<open>The range of \<open>datetime\<close>: 0001-01-01T00:00:00 up to 9999-12-31T23:59:59.999999.\<close>

definition datetime_max :: int where
  "datetime_max = 3652059 * us_per_day - 1"

definition round_half_even :: "real \<Rightarrow> int" where
  "round_half_even x =
     (let f = \<lfloor>x\<rfloor>; d = x - of_int f
      in if d < 1 / 2 then f else if 1 / 2 < d then f + 1 else if even f then f else f + 1)"

text \<open>\<open>datetime.timedelta(days=d)\<close>, in microseconds. Ints (and bools) and floats are
  accepted, a float being rounded to the microsecond; the days of the result must lie
  within \<open>\<plusminus>999999999\<close>.\<close>

definition timedelta_days :: "json \<Rightarrow> exc + int" where
  "timedelta_days d =
     (let check = (\<lambda>us. if us div us_per_day < - 999999999 \<or> 999999999 < us div us_per_day
                         then Inl OverflowError else Inr us)
      in case d of
           JInt i \<Rightarrow> check (i * us_per_day)
         | JBool b \<Rightarrow> check ((if b then 1 else 0) * us_per_day)
         | JFloat r \<Rightarrow> check (round_half_even (r * of_int us_per_day))
         | _ \<Rightarrow> Inl TypeError)"

text \<open>\<open>dt - td\<close> on a datetime.\<close>

definition datetime_sub :: "int \<Rightarrow> int \<Rightarrow> exc + int" where
  "datetime_sub dt td =
     (if dt - td < 0 \<or> datetime_max < dt - td then Inl OverflowError else Inr (dt - td))"

text \<open>\<open>window_days * 24 * 60 * 60\<close> on a number.\<close>

definition period_seconds :: "json \<Rightarrow> exc + json" where
  "period_seconds d =
     (case d of
        JInt i \<Rightarrow> Inr (JInt (i * 24 * 60 * 60))
      | JBool b \<Rightarrow> Inr (JInt ((if b then 1 else 0) * 24 * 60 * 60))
      | JFloat r \<Rightarrow> Inr (JFloat (r * 24 * 60 * 60))
      | _ \<Rightarrow> Inl TypeError)"

subsection \<open>SingleMetric\<close>

record stat_args =
  StartTime :: int
  EndTime :: int
  Period :: json
  Statistics :: "json list option"
  ExtendedStatistics :: "json list option"

record single_metric =
  namespace :: json
  metric_name :: json
  dimensions :: json
  statistic :: json
  extended_statistic :: json
  multiplier :: real
  stat_args :: stat_args

text \<open>Binding of the keyword arguments \<open>**m\<close> to a signature: every key must be a
  parameter name and every required parameter must be given (TypeError otherwise).\<close>

definition bind_kwargs :: "string list \<Rightarrow> string list \<Rightarrow> (string \<times> json) list \<Rightarrow> bool" where
  "bind_kwargs required optional kw \<longleftrightarrow>
     (\<forall>k \<in> set (map fst kw). k \<in> set (required @ optional)) \<and>
     (\<forall>k \<in> set required. k \<in> set (map fst kw))"

definition kwarg :: "(string \<times> json) list \<Rightarrow> string \<Rightarrow> json \<Rightarrow> json" where
  "kwarg kw k dflt = (case map_of kw k of None \<Rightarrow> dflt | Some v \<Rightarrow> v)"

text \<open>\<open>SingleMetric(window_days=window_days, **m)\<close>: the call binds the arguments, then
  \<open>__init__\<close> converts the multiplier, builds the time range and the period, and
  chooses the statistic.\<close>

definition SingleMetric_init :: "pylib \<Rightarrow> int \<Rightarrow> json \<Rightarrow> json \<Rightarrow> exc + single_metric" where
  "SingleMetric_init lib now window_days m =
     (case m of
        JObj kw \<Rightarrow>
          if \<not> bind_kwargs [''namespace'', ''metric_name'', ''dimensions'']
                 [''statistic'', ''extended_statistic'', ''multiplier''] kw
          then Inl TypeError
          else
            (case py_float lib (kwarg kw ''multiplier'' (JFloat 1)) of
               Inl e \<Rightarrow> Inl e
             | Inr mult \<Rightarrow>
                 (case timedelta_days window_days of
                    Inl e \<Rightarrow> Inl e
                  | Inr td \<Rightarrow>
                      (case datetime_sub now td of
                         Inl e \<Rightarrow> Inl e
                       | Inr start \<Rightarrow>
                           (case period_seconds window_days of
                              Inl e \<Rightarrow> Inl e
                            | Inr period \<Rightarrow>
                                (let stat = kwarg kw ''statistic'' JNull;
                                     ext = kwarg kw ''extended_statistic'' JNull;
                                     args = \<lparr>StartTime = start, EndTime = now, Period = period,
                                             Statistics = None, ExtendedStatistics = None\<rparr>;
                                     self = \<lparr>namespace = kwarg kw ''namespace'' JNull,
                                             metric_name = kwarg kw ''metric_name'' JNull,
                                             dimensions = kwarg kw ''dimensions'' JNull,
                                             statistic = stat,
                                             extended_statistic = ext,
                                             multiplier = mult,
                                             stat_args = args\<rparr>
                                 in if truthy ext
                                    then Inr (self\<lparr>stat_args := args\<lparr>ExtendedStatistics := Some [ext]\<rparr>\<rparr>)
                                    else if truthy stat
                                    then Inr (self\<lparr>stat_args := args\<lparr>Statistics := Some [stat]\<rparr>\<rparr>)
                                    else Inr (self\<lparr>statistic := JStr ''Sum'',
                                                   stat_args := args\<lparr>Statistics := Some [JStr ''Sum'']\<rparr>\<rparr>))))))
      | _ \<Rightarrow> Inl TypeError)"

subsection \<open>CompositeMetric and SLI\<close>

record composite_metric =
  metrics :: "single_metric list"

text \<open>The list comprehension of \<open>CompositeMetric.__init__\<close>: the first constructor
  that raises ends it.\<close>

fun build_metrics :: "pylib \<Rightarrow> int \<Rightarrow> json \<Rightarrow> json list \<Rightarrow> exc + single_metric list" where
  "build_metrics lib now window_days [] = Inr []"
| "build_metrics lib now window_days (m # ms) =
     (case SingleMetric_init lib now window_days m of
        Inl e \<Rightarrow> Inl e
      | Inr x \<Rightarrow>
          (case build_metrics lib now window_days ms of
             Inl e \<Rightarrow> Inl e
           | Inr xs \<Rightarrow> Inr (x # xs)))"

definition CompositeMetric_init :: "pylib \<Rightarrow> int \<Rightarrow> json \<Rightarrow> json \<Rightarrow> exc + composite_metric" where
  "CompositeMetric_init lib now window_days ms =
     (case py_iter ms of
        Inl e \<Rightarrow> Inl e
      | Inr xs \<Rightarrow>
          (case build_metrics lib now window_days xs of
             Inl e \<Rightarrow> Inl e
           | Inr built \<Rightarrow> Inr \<lparr>metrics = built\<rparr>))"

record sli =
  numerator :: composite_metric
  denominator :: composite_metric

text \<open>\<open>SLI(**sli_config)\<close>. \<open>wd\<close> is the module constant \<open>WINDOW_DAYS\<close>, the default
  of the parameter and the replacement for an explicit null.\<close>

definition SLI_init :: "pylib \<Rightarrow> int \<Rightarrow> int \<Rightarrow> json \<Rightarrow> exc + sli" where
  "SLI_init lib wd now sli_config =
     (case sli_config of
        JObj kw \<Rightarrow>
          if \<not> bind_kwargs [''numerator'', ''denominator''] [''window_days''] kw
          then Inl TypeError
          else
            (let given = kwarg kw ''window_days'' (JInt wd);
                 window_days = (if given = JNull then JInt wd else given)
             in case CompositeMetric_init lib now window_days (kwarg kw ''numerator'' JNull) of
                  Inl e \<Rightarrow> Inl e
                | Inr num \<Rightarrow>
                    (case CompositeMetric_init lib now window_days (kwarg kw ''denominator'' JNull) of
                       Inl e \<Rightarrow> Inl e
                     | Inr den \<Rightarrow> Inr \<lparr>numerator = num, denominator = den\<rparr>))
      | _ \<Rightarrow> Inl TypeError)"

subsection \<open>The backend\<close>

text \<open>A datapoint of a \<open>get_metric_statistics\<close> response is a dict with string keys:
  numbers under the statistic names, a timestamp, a unit, and a map of extended
  statistics.\<close>

datatype dpval =
    DNum real
  | DStr string
  | DTime int
  | DMap "(string \<times> real) list"

type_synonym datapoint = "(string \<times> dpval) list"

datatype call =
    NewClient
  | GetMetricStatistics json json json stat_args
  | PutMetricData string "(string \<times> real) list"

text \<open>The oracle: each operation answers from the calls made before it.
  \<open>new_client\<close> is \<open>boto3.client("cloudwatch")\<close>; \<open>put_metric_data\<close> takes the
  namespace and the list of (MetricName, Value) entries.\<close>

record backend =
  new_client :: "call list \<Rightarrow> bexc option"
  get_metric_statistics :: "call list \<Rightarrow> json \<Rightarrow> json \<Rightarrow> json \<Rightarrow> stat_args \<Rightarrow> bexc + datapoint list"
  put_metric_data :: "call list \<Rightarrow> string \<Rightarrow> (string \<times> real) list \<Rightarrow> bexc option"

text \<open>The lines printed, by the statement that prints them.\<close>

datatype msg =
    DivZeroMsg string
  | ApiErrorMsg string exc
  | RatioMsg string real
  | SkipMsg string exc

record world =
  cloudwatch_client :: bool
  calls :: "call list"
  printed :: "msg list"

definition log_call :: "call \<Rightarrow> world \<Rightarrow> world" where
  "log_call c w = w\<lparr>calls := calls w @ [c]\<rparr>"

definition print :: "msg \<Rightarrow> world \<Rightarrow> world" where
  "print m w = w\<lparr>printed := printed w @ [m]\<rparr>"

text \<open>\<open>Cloudwatch.client()\<close>: the client is created on first use and kept.\<close>

definition Cloudwatch_client :: "backend \<Rightarrow> world \<Rightarrow> (exc + unit) \<times> world" where
  "Cloudwatch_client bk w =
     (if cloudwatch_client w then (Inr (), w)
      else
        (case new_client bk (calls w) of
           Some e \<Rightarrow> (Inl (of_bexc e), log_call NewClient w)
         | None \<Rightarrow> (Inr (), (log_call NewClient w)\<lparr>cloudwatch_client := True\<rparr>)))"

subsection \<open>Reading a metric\<close>

text \<open>\<open>s[k]\<close> on a string: an int (or bool) index, negative ones counting from the
  end.\<close>

definition str_getitem :: "string \<Rightarrow> json \<Rightarrow> exc + dpval" where
  "str_getitem s k =
     (let idx = (\<lambda>i. let n = int (length s); j = (if i < 0 then n + i else i)
                     in if 0 \<le> j \<and> j < n then Inr (DStr [s ! nat j]) else Inl IndexError)
      in case k of
           JInt i \<Rightarrow> idx i
         | JBool b \<Rightarrow> idx (if b then 1 else 0)
         | _ \<Rightarrow> Inl TypeError)"

definition extract_stat :: "single_metric \<Rightarrow> datapoint \<Rightarrow> exc + dpval" where
  "extract_stat self datapoint =
     (if truthy (extended_statistic self)
      then
        (case dict_getitem datapoint (JStr ''ExtendedStatistics'') of
           Inl e \<Rightarrow> Inl e
         | Inr (DMap ext) \<Rightarrow>
             (case dict_getitem ext (extended_statistic self) of
                Inl e \<Rightarrow> Inl e
              | Inr v \<Rightarrow> Inr (DNum v))
         | Inr (DStr s) \<Rightarrow> str_getitem s (extended_statistic self)
         | Inr _ \<Rightarrow> Inl TypeError)
      else dict_getitem datapoint (statistic self))"

text \<open>\<open>total += value\<close> on a float total.\<close>

definition float_iadd :: "real \<Rightarrow> dpval \<Rightarrow> exc + real" where
  "float_iadd tot v = (case v of DNum x \<Rightarrow> Inr (tot + x) | _ \<Rightarrow> Inl TypeError)"

fun sum_datapoints :: "single_metric \<Rightarrow> datapoint list \<Rightarrow> real \<Rightarrow> exc + real" where
  "sum_datapoints self [] tot = Inr tot"
| "sum_datapoints self (datapoint # rest) tot =
     (case extract_stat self datapoint of
        Inl e \<Rightarrow> Inl e
      | Inr v \<Rightarrow>
          (case float_iadd tot v of
             Inl e \<Rightarrow> Inl e
           | Inr tot' \<Rightarrow> sum_datapoints self rest tot'))"

definition SingleMetric_sum :: "backend \<Rightarrow> single_metric \<Rightarrow> world \<Rightarrow> (exc + real) \<times> world" where
  "SingleMetric_sum bk self w =
     (case Cloudwatch_client bk w of
        (Inl e, w1) \<Rightarrow> (Inl e, w1)
      | (Inr _, w1) \<Rightarrow>
          (let w2 = log_call (GetMetricStatistics (namespace self) (metric_name self)
                                (dimensions self) (stat_args self)) w1
           in case get_metric_statistics bk (calls w1) (namespace self) (metric_name self)
                     (dimensions self) (stat_args self) of
                Inl e \<Rightarrow> (Inl (of_bexc e), w2)
              | Inr datapoints \<Rightarrow>
                  (case sum_datapoints self datapoints 0 of
                     Inl e \<Rightarrow> (Inl e, w2)
                   | Inr tot \<Rightarrow> (Inr (tot * multiplier self), w2))))"

fun sum_metrics :: "backend \<Rightarrow> single_metric list \<Rightarrow> real \<Rightarrow> world \<Rightarrow> (exc + real) \<times> world" where
  "sum_metrics bk [] tot w = (Inr tot, w)"
| "sum_metrics bk (m # ms) tot w =
     (case SingleMetric_sum bk m w of
        (Inl e, w1) \<Rightarrow> (Inl e, w1)
      | (Inr x, w1) \<Rightarrow> sum_metrics bk ms (tot + x) w1)"

definition CompositeMetric_sum :: "backend \<Rightarrow> composite_metric \<Rightarrow> world \<Rightarrow> (exc + real) \<times> world" where
  "CompositeMetric_sum bk self w = sum_metrics bk (metrics self) 0 w"

definition get_ratio :: "backend \<Rightarrow> sli \<Rightarrow> world \<Rightarrow> (exc + real) \<times> world" where
  "get_ratio bk self w =
     (case CompositeMetric_sum bk (numerator self) w of
        (Inl e, w1) \<Rightarrow> (Inl e, w1)
      | (Inr n, w1) \<Rightarrow>
          (case CompositeMetric_sum bk (denominator self) w1 of
             (Inl e, w2) \<Rightarrow> (Inl e, w2)
           | (Inr d, w2) \<Rightarrow>
               (if d = 0 then (Inl ZeroDivisionError, w2) else (Inr (n / d), w2))))"

subsection \<open>Publishing\<close>

fun publish_slis :: "backend \<Rightarrow> (string \<times> sli) list \<Rightarrow> string \<Rightarrow> string \<Rightarrow> world \<Rightarrow> (exc + unit) \<times> world" where
  "publish_slis bk [] sli_namespace sli_prefix w = (Inr (), w)"
| "publish_slis bk ((sli_name, s) # rest) sli_namespace sli_prefix w =
     (case get_ratio bk s w of
        (Inl e, w1) \<Rightarrow>
          (if e = ZeroDivisionError
           then publish_slis bk rest sli_namespace sli_prefix (print (DivZeroMsg sli_name) w1)
           else if e = ClientError \<or> e = BotoCoreError
           then publish_slis bk rest sli_namespace sli_prefix (print (ApiErrorMsg sli_name e) w1)
           else (Inl e, w1))
      | (Inr v, w1) \<Rightarrow>
          (let w2 = print (RatioMsg sli_name v) w1;
               metric_data = [(sli_prefix @ ''-'' @ sli_name, v)]
           in case Cloudwatch_client bk w2 of
                (Inl e, w3) \<Rightarrow> (Inl e, w3)
              | (Inr _, w3) \<Rightarrow>
                  (let w4 = log_call (PutMetricData sli_namespace metric_data) w3
                   in case put_metric_data bk (calls w3) sli_namespace metric_data of
                        Some e \<Rightarrow> (Inl (of_bexc e), w4)
                      | None \<Rightarrow> publish_slis bk rest sli_namespace sli_prefix w4)))"

subsection \<open>Parsing the configuration\<close>

text \<open>The loop of \<open>parse_sli_json\<close> over the items of the decoded object: \<open>slis\<close> is
  the dict built so far, \<open>out\<close> the lines printed so far.\<close>

fun parse_items :: "pylib \<Rightarrow> int \<Rightarrow> int \<Rightarrow> (string \<times> json) list \<Rightarrow> (string \<times> sli) list \<Rightarrow> msg list
    \<Rightarrow> (exc + (string \<times> sli) list) \<times> msg list" where
  "parse_items lib wd now [] slis out = (Inr slis, out)"
| "parse_items lib wd now ((sli_name, sli_config) # rest) slis out =
     (case SLI_init lib wd now sli_config of
        Inr s \<Rightarrow> parse_items lib wd now rest (dict_setitem slis sli_name s) out
      | Inl e \<Rightarrow>
          (if e = KeyError \<or> e = TypeError \<or> e = ValueError
           then parse_items lib wd now rest slis (out @ [SkipMsg sli_name e])
           else (Inl e, out)))"

text \<open>\<open>json.loads\<close> raises JSONDecodeError, a ValueError, on a string that is not
  JSON; \<open>.items()\<close> exists on a dict only.\<close>

definition parse_sli_json :: "pylib \<Rightarrow> int \<Rightarrow> int \<Rightarrow> string \<Rightarrow> (exc + (string \<times> sli) list) \<times> msg list" where
  "parse_sli_json lib wd now sli_json =
     (case json_loads lib sli_json of
        None \<Rightarrow> (Inl ValueError, [])
      | Some (JObj sli_configs) \<Rightarrow> parse_items lib wd now sli_configs [] []
      | Some _ \<Rightarrow> (Inl AttributeError, []))"

subsection \<open>The module and its handler\<close>

record globals =
  SLI_NAMESPACE :: "string option"
  SLI_PREFIX :: "string option"
  SLIS :: "string option"
  WINDOW_DAYS :: int

text \<open>Import of the module: the four assignments from the environment.
  \<open>int(None)\<close> is a TypeError, \<open>int\<close> of a string that is not an integer literal a
  ValueError.\<close>

definition load_module :: "pylib \<Rightarrow> (string \<Rightarrow> string option) \<Rightarrow> exc + globals" where
  "load_module lib getenv =
     (case getenv ''WINDOW_DAYS'' of
        None \<Rightarrow> Inl TypeError
      | Some s \<Rightarrow>
          (case int_of_str lib s of
             None \<Rightarrow> Inl ValueError
           | Some n \<Rightarrow>
               Inr \<lparr>SLI_NAMESPACE = getenv ''SLI_NAMESPACE'',
                    SLI_PREFIX = getenv ''SLI_PREFIX'',
                    SLIS = getenv ''SLIS'',
                    WINDOW_DAYS = n\<rparr>))"

definition lambda_handler :: "pylib \<Rightarrow> globals \<Rightarrow> int \<Rightarrow> backend \<Rightarrow> world \<Rightarrow> (exc + unit) \<times> world" where
  "lambda_handler lib g now bk w =
     (case SLI_NAMESPACE g of
        None \<Rightarrow> (Inl (RuntimeError ''SLI_NAMESPACE not set in environment''), w)
      | Some sli_namespace \<Rightarrow>
          (case SLI_PREFIX g of
             None \<Rightarrow> (Inl (RuntimeError ''SLI_PREFIX not set in environment''), w)
           | Some sli_prefix \<Rightarrow>
               (case SLIS g of
                  None \<Rightarrow> (Inl (RuntimeError ''SLIS definition JSON not set in environment''), w)
                | Some sli_json \<Rightarrow>
                    (case parse_sli_json lib (WINDOW_DAYS g) now sli_json of
                       (Inl e, out) \<Rightarrow> (Inl e, w\<lparr>printed := printed w @ out\<rparr>)
                     | (Inr slis, out) \<Rightarrow>
                         publish_slis bk slis sli_namespace sli_prefix
                           (w\<lparr>printed := printed w @ out\<rparr>)))))"

text \<open>One invocation from a fresh process (\<open>main\<close>): import, then the handler.\<close>

definition main :: "pylib \<Rightarrow> (string \<Rightarrow> string option) \<Rightarrow> int \<Rightarrow> backend \<Rightarrow> world \<Rightarrow> (exc + unit) \<times> world" where
  "main lib getenv now bk w =
     (case load_module lib getenv of
        Inl e \<Rightarrow> (Inl e, w)
      | Inr g \<Rightarrow> lambda_handler lib g now bk w)"

subsection \<open>Example inputs\<close>

text \<open>2026-01-01T00:00:00.\<close>

definition ex_now :: int where
  "ex_now = 63902822400000000"

text \<open>A library that decodes nothing, for the examples that need none of it.\<close>

definition ex_lib :: pylib where
  "ex_lib = \<lparr>json_loads = (\<lambda>_. None), int_of_str = (\<lambda>_. None), float_of_str = (\<lambda>_. None)\<rparr>"

text \<open>Two configurations as text, and what \<open>json.loads\<close> makes of each. The first
  has a sound entry, an entry with a negative window, an entry with an unknown statistic
  name and an entry without numerator; the second has a window of ten thousand
  million days.\<close>

definition ex_slis_text :: string where
  \<open>ex_slis_text =
     ''{"ok": {"numerator": [{"namespace": "int/sli", "metric_name": "Ok", "dimensions": []}], '' @
     ''"denominator": [{"namespace": "int/sli", "metric_name": "Total", "dimensions": []}]}, '' @
     ''"negative": {"window_days": -1, "numerator": [], '' @
     ''"denominator": [{"namespace": "int/sli", "metric_name": "Total", "dimensions": []}]}, '' @
     ''"bogus": {"numerator": [], '' @
     ''"denominator": [{"namespace": "int/sli", "metric_name": "Total", "dimensions": [], "statistic": "Bogus"}]}, '' @
     ''"broken": {"denominator": []}}''\<close>

definition ex_slis_items :: "(string \<times> json) list" where
  "ex_slis_items =
     [(''ok'', JObj [(''numerator'', JList [JObj [(''namespace'', JStr ''int/sli''),
                                                 (''metric_name'', JStr ''Ok''),
                                                 (''dimensions'', JList [])]]),
                    (''denominator'', JList [JObj [(''namespace'', JStr ''int/sli''),
                                                   (''metric_name'', JStr ''Total''),
                                                   (''dimensions'', JList [])]])]),
      (''negative'', JObj [(''window_days'', JInt (- 1)),
                          (''numerator'', JList []),
                          (''denominator'', JList [JObj [(''namespace'', JStr ''int/sli''),
                                                         (''metric_name'', JStr ''Total''),
                                                         (''dimensions'', JList [])]])]),
      (''bogus'', JObj [(''numerator'', JList []),
                       (''denominator'', JList [JObj [(''namespace'', JStr ''int/sli''),
                                                      (''metric_name'', JStr ''Total''),
                                                      (''dimensions'', JList []),
                                                      (''statistic'', JStr ''Bogus'')]])]),
      (''broken'', JObj [(''denominator'', JList [])])]"

definition ex_slis_json :: json where
  "ex_slis_json = JObj ex_slis_items"

definition ex_overflow_text :: string where
  \<open>ex_overflow_text =
     ''{"huge": {"window_days": 10000000000, "numerator": [], '' @
     ''"denominator": [{"namespace": "int/sli", "metric_name": "Total", "dimensions": []}]}}''\<close>

definition ex_overflow_json :: json where
  "ex_overflow_json =
     JObj [(''huge'', JObj [(''window_days'', JInt 10000000000),
                           (''numerator'', JList []),
                           (''denominator'', JList [JObj [(''namespace'', JStr ''int/sli''),
                                                          (''metric_name'', JStr ''Total''),
                                                          (''dimensions'', JList [])]])])]"

definition ex_json_lib :: pylib where
  "ex_json_lib =
     \<lparr>json_loads = (\<lambda>s. if s = ex_slis_text then Some ex_slis_json
                         else if s = ex_overflow_text then Some ex_overflow_json
                         else None),
      int_of_str = (\<lambda>s. if s = ''30'' then Some 30 else None),
      float_of_str = (\<lambda>_. None)\<rparr>"

text \<open>An environment without \<open>SLI_NAMESPACE\<close>.\<close>

definition ex_getenv :: "string \<Rightarrow> string option" where
  "ex_getenv name =
     (if name = ''WINDOW_DAYS'' then Some ''30''
      else if name = ''SLI_PREFIX'' then Some ''int''
      else if name = ''SLIS'' then Some ex_slis_text
      else None)"

definition ex_world :: world where
  "ex_world = \<lparr>cloudwatch_client = False, calls = [], printed = []\<rparr>"

definition ex_args :: stat_args where
  "ex_args = \<lparr>StartTime = ex_now - 30 * us_per_day, EndTime = ex_now, Period = JInt 2592000,
              Statistics = Some [JStr ''Sum''], ExtendedStatistics = None\<rparr>"

definition ex_metric :: "string \<Rightarrow> single_metric" where
  "ex_metric name = \<lparr>namespace = JStr ''int/sli'', metric_name = JStr name, dimensions = JList [],
                      statistic = JStr ''Sum'', extended_statistic = JNull, multiplier = 1,
                      stat_args = ex_args\<rparr>"

definition ex_sli :: "string \<Rightarrow> string \<Rightarrow> sli" where
  "ex_sli good all = \<lparr>numerator = \<lparr>metrics = [ex_metric good]\<rparr>,
                       denominator = \<lparr>metrics = [ex_metric all]\<rparr>\<rparr>"

text \<open>A backend that knows three metrics: \<open>Ok\<close> with one datapoint, \<open>Total\<close> with
  two, \<open>Idle\<close> with none, \<open>Latency\<close> with an average only; any other metric is a
  ClientError. Writes succeed.\<close>

definition ex_backend :: backend where
  "ex_backend =
     \<lparr>new_client = (\<lambda>_. None),
      get_metric_statistics = (\<lambda>_ _ name _ _.
         if name = JStr ''Ok'' then Inr [[(''Sum'', DNum 95)]]
         else if name = JStr ''Total'' then Inr [[(''Sum'', DNum 60)], [(''Sum'', DNum 40)]]
         else if name = JStr ''Idle'' then Inr []
         else if name = JStr ''Latency'' then Inr [[(''Average'', DNum 3)]]
         else Inl BClientError),
      put_metric_data = (\<lambda>_ _ _. None)\<rparr>"

text \<open>The configuration the example metrics and SLIs are built from.\<close>

definition ex_metric_json :: "string \<Rightarrow> json" where
  "ex_metric_json name =
     JObj [(''namespace'', JStr ''int/sli''), (''metric_name'', JStr name), (''dimensions'', JList [])]"

definition ex_sli_json :: "string \<Rightarrow> string \<Rightarrow> json" where
  "ex_sli_json good all =
     JObj [(''numerator'', JList [ex_metric_json good]), (''denominator'', JList [ex_metric_json all])]"

text \<open>A spec that names both a statistic and an extended statistic, and the metric
  built from it.\<close>

definition ex_p99_json :: json where
  "ex_p99_json =
     JObj [(''namespace'', JStr ''int/sli''), (''metric_name'', JStr ''Latency''),
           (''dimensions'', JList []), (''statistic'', JStr ''Average''),
           (''extended_statistic'', JStr ''p99'')]"

definition ex_p99_metric :: single_metric where
  "ex_p99_metric =
     \<lparr>namespace = JStr ''int/sli'', metric_name = JStr ''Latency'', dimensions = JList [],
      statistic = JStr ''Average'', extended_statistic = JStr ''p99'', multiplier = 1,
      stat_args = ex_args\<lparr>Statistics := None, ExtendedStatistics := Some [JStr ''p99'']\<rparr>\<rparr>"

text \<open>An SLI without denominator metrics, whose numerator metric the example backend
  does not know.\<close>

definition ex_empty_den_json :: json where
  "ex_empty_den_json =
     JObj [(''numerator'', JList [ex_metric_json ''Unknown'']), (''denominator'', JList [])]"

definition ex_empty_den_sli :: sli where
  "ex_empty_den_sli =
     \<lparr>numerator = \<lparr>metrics = [ex_metric ''Unknown'']\<rparr>, denominator = \<lparr>metrics = []\<rparr>\<rparr>"

text \<open>The SLIs that the entries \<open>negative\<close> and \<open>bogus\<close> of the example configuration
  describe.\<close>

definition ex_negative_sli :: sli where
  "ex_negative_sli =
     \<lparr>numerator = \<lparr>metrics = []\<rparr>,
      denominator = \<lparr>metrics =
        [(ex_metric ''Total'')\<lparr>stat_args := ex_args\<lparr>StartTime := ex_now + us_per_day,
                                                    Period := JInt (- 86400)\<rparr>\<rparr>]\<rparr>\<rparr>"

definition ex_bogus_sli :: sli where
  "ex_bogus_sli =
     \<lparr>numerator = \<lparr>metrics = []\<rparr>,
      denominator = \<lparr>metrics =
        [(ex_metric ''Total'')\<lparr>statistic := JStr ''Bogus'',
                               stat_args := ex_args\<lparr>Statistics := Some [JStr ''Bogus'']\<rparr>\<rparr>]\<rparr>\<rparr>"





text \<open>A spec whose extended statistic is the empty string, and the metric built from
  it.\<close>

definition ex_empty_ext_json :: json where
  "ex_empty_ext_json =
     JObj [(''namespace'', JStr ''int/sli''), (''metric_name'', JStr ''Latency''),
           (''dimensions'', JList []), (''statistic'', JStr ''Average''),
           (''extended_statistic'', JStr '''')]"

definition ex_empty_ext_metric :: single_metric where
  "ex_empty_ext_metric =
     \<lparr>namespace = JStr ''int/sli'', metric_name = JStr ''Latency'', dimensions = JList [],
      statistic = JStr ''Average'', extended_statistic = JStr '''', multiplier = 1,
      stat_args = ex_args\<lparr>Statistics := Some [JStr ''Average'']\<rparr>\<rparr>"

text \<open>A backend that answers every query with two datapoints carrying only the
  extended statistic p99.\<close>

definition ex_tail_backend :: backend where
  "ex_tail_backend =
     \<lparr>new_client = (\<lambda>_. None),
      get_metric_statistics = (\<lambda>_ _ _ _ _.
         Inr [[(''ExtendedStatistics'', DMap [(''p99'', 7)])],
              [(''ExtendedStatistics'', DMap [(''p99'', 5)])]]),
      put_metric_data = (\<lambda>_ _ _. None)\<rparr>"


subsection \<open>Notions used in the statements\<close>

text \<open>The key that \<open>extract_stat\<close> asks for is not on the datapoint: the statistic
  name is not a key of the datapoint, or, for an extended statistic, the datapoint has no
  \<open>ExtendedStatistics\<close> or its map lacks the name. A name that is not a string is never
  a key.\<close>

definition requested_stat_absent :: "single_metric \<Rightarrow> datapoint \<Rightarrow> bool" where
  "requested_stat_absent self datapoint \<longleftrightarrow>
     (if truthy (extended_statistic self)
      then
        (case map_of datapoint ''ExtendedStatistics'' of
           None \<Rightarrow> True
         | Some (DMap ext) \<Rightarrow>
             (case extended_statistic self of JStr name \<Rightarrow> map_of ext name = None | _ \<Rightarrow> True)
         | Some _ \<Rightarrow> False)
      else (case statistic self of JStr name \<Rightarrow> map_of datapoint name = None | _ \<Rightarrow> True))"

text \<open>The entries of a configuration whose construction succeeds, with the SLI built,
  and the lines printed for those whose construction raises.\<close>

fun constructed :: "pylib \<Rightarrow> int \<Rightarrow> int \<Rightarrow> (string \<times> json) list \<Rightarrow> (string \<times> sli) list" where
  "constructed lib wd now [] = []"
| "constructed lib wd now ((sli_name, sli_config) # rest) =
     (case SLI_init lib wd now sli_config of
        Inr s \<Rightarrow> (sli_name, s) # constructed lib wd now rest
      | Inl e \<Rightarrow> constructed lib wd now rest)"

fun skipped :: "pylib \<Rightarrow> int \<Rightarrow> int \<Rightarrow> (string \<times> json) list \<Rightarrow> msg list" where
  "skipped lib wd now [] = []"
| "skipped lib wd now ((sli_name, sli_config) # rest) =
     (case SLI_init lib wd now sli_config of
        Inr s \<Rightarrow> skipped lib wd now rest
      | Inl e \<Rightarrow> SkipMsg sli_name e # skipped lib wd now rest)"







section \<open>Properties\<close>

subsection \<open>Which exceptions a read can raise\<close>

lemma of_bexc_cases: "of_bexc b \<in> {ClientError, BotoCoreError, OtherError}"
  by (cases b) simp_all

lemma dict_getitem_errors: "dict_getitem d k = Inl e \<Longrightarrow> e = KeyError \<or> e = TypeError"
  by (auto simp: dict_getitem_def split: json.splits option.splits)

lemma str_getitem_errors: "str_getitem s k = Inl e \<Longrightarrow> e = IndexError \<or> e = TypeError"
  by (auto simp: str_getitem_def Let_def split: json.splits if_splits)

lemma extract_stat_errors:
  "extract_stat m dp = Inl e \<Longrightarrow> e = KeyError \<or> e = TypeError \<or> e = IndexError"
  by (auto simp: extract_stat_def split: if_splits sum.splits dpval.splits
      dest: dict_getitem_errors str_getitem_errors)

lemma float_iadd_errors: "float_iadd t v = Inl e \<Longrightarrow> e = TypeError"
  by (auto simp: float_iadd_def split: dpval.splits)

lemma sum_datapoints_errors:
  "sum_datapoints m dps t = Inl e \<Longrightarrow> e = KeyError \<or> e = TypeError \<or> e = IndexError"
proof (induction dps arbitrary: t)
  case Nil
  then show ?case by simp
next
  case (Cons dp dps)
  then show ?case
    by (auto split: sum.splits dest: extract_stat_errors float_iadd_errors)
qed

lemma Cloudwatch_client_errors:
  "Cloudwatch_client bk w = (Inl e, w') \<Longrightarrow> e \<in> {ClientError, BotoCoreError, OtherError}"
  using of_bexc_cases
  by (auto simp: Cloudwatch_client_def split: if_splits option.splits)

lemma SingleMetric_sum_errors:
  "SingleMetric_sum bk m w = (Inl e, w') \<Longrightarrow>
   e \<in> {KeyError, TypeError, IndexError, ClientError, BotoCoreError, OtherError}"
  unfolding SingleMetric_sum_def Let_def
  using of_bexc_cases
  by (auto split: prod.splits sum.splits dest!: Cloudwatch_client_errors sum_datapoints_errors)

lemma sum_metrics_errors:
  "sum_metrics bk ms t w = (Inl e, w') \<Longrightarrow>
   e \<in> {KeyError, TypeError, IndexError, ClientError, BotoCoreError, OtherError}"
proof (induction ms arbitrary: t w)
  case Nil
  then show ?case by simp
next
  case (Cons m ms)
  show ?case
  proof (cases "SingleMetric_sum bk m w")
    case (Pair r w1)
    show ?thesis
    proof (cases r)
      case (Inl e1)
      with Pair Cons.prems have "SingleMetric_sum bk m w = (Inl e, w')" by simp
      then show ?thesis by (rule SingleMetric_sum_errors)
    next
      case (Inr x)
      with Pair Cons.prems have "sum_metrics bk ms (t + x) w1 = (Inl e, w')" by simp
      then show ?thesis by (rule Cons.IH)
    qed
  qed
qed

lemma CompositeMetric_sum_not_zero_division:
  "CompositeMetric_sum bk c w \<noteq> (Inl ZeroDivisionError, w')"
  unfolding CompositeMetric_sum_def
  using sum_metrics_errors [of bk "metrics c" 0 w ZeroDivisionError w'] by auto

lemmas ex_defs =
  ex_now_def ex_lib_def ex_world_def ex_args_def ex_metric_def ex_sli_def ex_backend_def

lemmas init_defs =
  SLI_init_def CompositeMetric_init_def SingleMetric_init_def bind_kwargs_def kwarg_def
  py_float_def py_iter_def timedelta_days_def datetime_sub_def datetime_max_def
  period_seconds_def us_per_day_def Let_def

lemmas read_defs =
  get_ratio_def CompositeMetric_sum_def SingleMetric_sum_def Cloudwatch_client_def
  log_call_def print_def extract_stat_def dict_getitem_def float_iadd_def


subsection \<open>The ratio\<close>

text \<open>The numerator's metric is rejected by the backend and the denominator's has no
  datapoint: the sum of the denominator is 0, in the initial world and in the one the
  numerator leaves, and \<open>get_ratio\<close> raises the ClientError of the numerator, not
  ZeroDivisionError.\<close>

theorem get_ratio_counterexample:
  "fst (CompositeMetric_sum ex_backend (denominator (ex_sli ''Unknown'' ''Idle'')) ex_world) = Inr 0 \<and>
   fst (CompositeMetric_sum ex_backend (denominator (ex_sli ''Unknown'' ''Idle''))
          (snd (CompositeMetric_sum ex_backend (numerator (ex_sli ''Unknown'' ''Idle'')) ex_world))) = Inr 0 \<and>
   fst (get_ratio ex_backend (ex_sli ''Unknown'' ''Idle'') ex_world) = Inl ClientError"
  by (simp add: ex_defs read_defs)

text \<open>
  Claim C2, amended. When the sum of the numerator returns, \<open>get_ratio\<close> raises
  ZeroDivisionError exactly when the sum of the denominator is zero, and when that sum
  is not zero it returns the sum of the numerator divided by the sum of the
  denominator, unchanged. ZeroDivisionError is raised in no other case; when the sum
  of the numerator raises, \<open>get_ratio\<close> raises that exception, whatever the
  denominator.
\<close>

theorem get_ratio_division:
  "(fst (get_ratio bk s w) = Inl ZeroDivisionError \<longleftrightarrow>
      (\<exists>n w1 w2. CompositeMetric_sum bk (numerator s) w = (Inr n, w1) \<and>
                 CompositeMetric_sum bk (denominator s) w1 = (Inr 0, w2))) \<and>
   (\<forall>n d w1 w2. CompositeMetric_sum bk (numerator s) w = (Inr n, w1) \<longrightarrow>
                 CompositeMetric_sum bk (denominator s) w1 = (Inr d, w2) \<longrightarrow> d \<noteq> 0 \<longrightarrow>
                 get_ratio bk s w = (Inr (n / d), w2)) \<and>
   (\<forall>e w1. CompositeMetric_sum bk (numerator s) w = (Inl e, w1) \<longrightarrow>
            get_ratio bk s w = (Inl e, w1))"
proof (cases "CompositeMetric_sum bk (numerator s) w")
  case num: (Pair rn w1)
  show ?thesis
  proof (cases rn)
    case (Inl e)
    with num have "e \<noteq> ZeroDivisionError"
      using CompositeMetric_sum_not_zero_division [of bk "numerator s" w w1] by auto
    with num Inl show ?thesis by (simp add: get_ratio_def)
  next
    case n: (Inr n)
    show ?thesis
    proof (cases "CompositeMetric_sum bk (denominator s) w1")
      case den: (Pair rd w2)
      show ?thesis
      proof (cases rd)
        case (Inl e)
        with den have "e \<noteq> ZeroDivisionError"
          using CompositeMetric_sum_not_zero_division [of bk "denominator s" w1 w2] by auto
        with num n den Inl show ?thesis by (simp add: get_ratio_def)
      next
        case (Inr d)
        with num n den show ?thesis by (simp add: get_ratio_def)
      qed
    qed
  qed
qed

text \<open>95 good requests out of 60 + 40: the ratio is 19/20. With a denominator that has
  no datapoint the division raises.\<close>

theorem get_ratio_division_witness:
  "fst (get_ratio ex_backend (ex_sli ''Ok'' ''Total'') ex_world) = Inr (19 / 20) \<and>
   fst (get_ratio ex_backend (ex_sli ''Ok'' ''Idle'') ex_world) = Inl ZeroDivisionError"
proof -
  define w1 where "w1 = snd (CompositeMetric_sum ex_backend (numerator (ex_sli ''Ok'' ''Total'')) ex_world)"
  define w2 where "w2 = snd (CompositeMetric_sum ex_backend (denominator (ex_sli ''Ok'' ''Total'')) w1)"
  define w3 where "w3 = snd (CompositeMetric_sum ex_backend (denominator (ex_sli ''Ok'' ''Idle'')) w1)"
  have n: "CompositeMetric_sum ex_backend (numerator (ex_sli ''Ok'' ''Total'')) ex_world = (Inr 95, w1)"
    unfolding w1_def by (simp add: ex_defs read_defs)
  have n': "CompositeMetric_sum ex_backend (numerator (ex_sli ''Ok'' ''Idle'')) ex_world = (Inr 95, w1)"
    unfolding w1_def by (simp add: ex_defs read_defs)
  have d: "CompositeMetric_sum ex_backend (denominator (ex_sli ''Ok'' ''Total'')) w1 = (Inr 100, w2)"
    unfolding w2_def w1_def by (simp add: ex_defs read_defs)
  have z: "CompositeMetric_sum ex_backend (denominator (ex_sli ''Ok'' ''Idle'')) w1 = (Inr 0, w3)"
    unfolding w3_def w1_def by (simp add: ex_defs read_defs)
  have "get_ratio ex_backend (ex_sli ''Ok'' ''Total'') ex_world = (Inr (95 / 100), w2)"
    using get_ratio_division [of ex_backend "ex_sli ''Ok'' ''Total''" ex_world] n d by simp
  moreover have "fst (get_ratio ex_backend (ex_sli ''Ok'' ''Idle'') ex_world) = Inl ZeroDivisionError"
    using get_ratio_division [of ex_backend "ex_sli ''Ok'' ''Idle''" ex_world] n' z by blast
  ultimately show ?thesis by simp
qed


subsection \<open>Reading one metric\<close>

lemma extract_stat_standard:
  "\<not> truthy (extended_statistic m) \<Longrightarrow> statistic m = JStr name \<Longrightarrow>
   map_of dp name = Some v \<Longrightarrow> extract_stat m dp = Inr v"
  by (simp add: extract_stat_def dict_getitem_def)

lemma extract_stat_extended:
  "extended_statistic m = JStr name \<Longrightarrow> name \<noteq> [] \<Longrightarrow>
   map_of dp ''ExtendedStatistics'' = Some (DMap ext) \<Longrightarrow> map_of ext name = Some v \<Longrightarrow>
   extract_stat m dp = Inr (DNum v)"
  by (simp add: extract_stat_def dict_getitem_def)

lemma sum_datapoints_numbers:
  "map (extract_stat m) dps = map (\<lambda>v. Inr (DNum v)) vs \<Longrightarrow>
   sum_datapoints m dps t = Inr (t + sum_list vs)"
proof (induction dps arbitrary: vs t)
  case Nil
  then show ?case by simp
next
  case (Cons dp dps)
  then obtain v vs' where vs: "vs = v # vs'" by (cases vs) auto
  with Cons.prems have hd: "extract_stat m dp = Inr (DNum v)"
    and tl: "map (extract_stat m) dps = map (\<lambda>v. Inr (DNum v)) vs'" by simp_all
  from Cons.IH [OF tl] hd vs show ?case by (simp add: float_iadd_def add.assoc)
qed

lemma extract_standard_all:
  "\<not> truthy (extended_statistic m) \<Longrightarrow> statistic m = JStr name \<Longrightarrow>
   map (\<lambda>dp. map_of dp name) dps = map (\<lambda>v. Some (DNum v)) vs \<Longrightarrow>
   map (extract_stat m) dps = map (\<lambda>v. Inr (DNum v)) vs"
proof (induction dps arbitrary: vs)
  case Nil
  then show ?case by simp
next
  case (Cons dp dps)
  then obtain v vs' where vs: "vs = v # vs'" by (cases vs) auto
  with Cons.prems(3) have hd: "map_of dp name = Some (DNum v)"
    and tl: "map (\<lambda>dp. map_of dp name) dps = map (\<lambda>v. Some (DNum v)) vs'" by simp_all
  from Cons.IH [OF Cons.prems(1,2) tl] extract_stat_standard [OF Cons.prems(1,2) hd] vs
  show ?case by simp
qed

lemma extract_extended_all:
  "extended_statistic m = JStr name \<Longrightarrow> name \<noteq> [] \<Longrightarrow>
   map (\<lambda>dp. map_of dp ''ExtendedStatistics'') dps = map (\<lambda>ext. Some (DMap ext)) exts \<Longrightarrow>
   map (\<lambda>ext. map_of ext name) exts = map Some vs \<Longrightarrow>
   map (extract_stat m) dps = map (\<lambda>v. Inr (DNum v)) vs"
proof (induction dps arbitrary: exts vs)
  case Nil
  then show ?case by simp
next
  case (Cons dp dps)
  from Cons.prems(3) obtain ext exts' where exts: "exts = ext # exts'" by (cases exts) auto
  with Cons.prems(4) obtain v vs' where vs: "vs = v # vs'" by (cases vs) auto
  from Cons.prems(3,4) exts vs have hd: "map_of dp ''ExtendedStatistics'' = Some (DMap ext)"
    "map_of ext name = Some v"
    and tl: "map (\<lambda>dp. map_of dp ''ExtendedStatistics'') dps = map (\<lambda>ext. Some (DMap ext)) exts'"
    "map (\<lambda>ext. map_of ext name) exts' = map Some vs'" by simp_all
  from Cons.IH [OF Cons.prems(1,2) tl] extract_stat_extended [OF Cons.prems(1,2) hd] vs
  show ?case by simp
qed

text \<open>
  Claim C4. When the client is available and the backend answers with datapoints that
  each carry a number under the configured statistic (under the statistic's name for a
  standard statistic; under the extended statistic's name inside
  \<open>ExtendedStatistics\<close> for an extended one), \<open>sum\<close> returns the sum of these
  numbers over all the datapoints returned, times the multiplier: several datapoints
  are added, not averaged.
\<close>

theorem SingleMetric_sum_adds_all:
  assumes "Cloudwatch_client bk w = (Inr (), w1)"
    and "get_metric_statistics bk (calls w1) (namespace m) (metric_name m) (dimensions m)
           (stat_args m) = Inr dps"
    and "(\<not> truthy (extended_statistic m) \<and> statistic m = JStr name \<and>
            map (\<lambda>dp. map_of dp name) dps = map (\<lambda>v. Some (DNum v)) vs) \<or>
         (extended_statistic m = JStr name \<and> name \<noteq> [] \<and>
            map (\<lambda>dp. map_of dp ''ExtendedStatistics'') dps = map (\<lambda>ext. Some (DMap ext)) exts \<and>
            map (\<lambda>ext. map_of ext name) exts = map Some vs)"
  shows "SingleMetric_sum bk m w =
           (Inr (sum_list vs * multiplier m),
            log_call (GetMetricStatistics (namespace m) (metric_name m) (dimensions m) (stat_args m)) w1)"
proof -
  from assms(3) have "map (extract_stat m) dps = map (\<lambda>v. Inr (DNum v)) vs"
    by (auto intro: extract_standard_all extract_extended_all)
  from sum_datapoints_numbers [OF this, of 0] assms(1,2) show ?thesis
    by (simp add: SingleMetric_sum_def Let_def)
qed

text \<open>Two datapoints, 60 and 40 under Sum, and a multiplier of 2 give 200; two
  datapoints, 7 and 5 under p99, give 12.\<close>

theorem SingleMetric_sum_adds_all_witness:
  "fst (SingleMetric_sum ex_backend ((ex_metric ''Total'')\<lparr>multiplier := 2\<rparr>) ex_world) = Inr 200 \<and>
   fst (SingleMetric_sum ex_tail_backend ex_p99_metric ex_world) = Inr 12"
proof -
  define m where "m = (ex_metric ''Total'')\<lparr>multiplier := 2\<rparr>"
  define w1 where "w1 = snd (Cloudwatch_client ex_backend ex_world)"
  have c: "Cloudwatch_client ex_backend ex_world = (Inr (), w1)"
    unfolding w1_def by (simp add: ex_defs read_defs)
  have g: "get_metric_statistics ex_backend (calls w1) (namespace m) (metric_name m)
             (dimensions m) (stat_args m) = Inr [[(''Sum'', DNum 60)], [(''Sum'', DNum 40)]]"
    unfolding m_def by (simp add: ex_defs)
  have x: "(\<not> truthy (extended_statistic m) \<and> statistic m = JStr ''Sum'' \<and>
            map (\<lambda>dp. map_of dp ''Sum'') [[(''Sum'', DNum 60)], [(''Sum'', DNum 40)]]
              = map (\<lambda>v. Some (DNum v)) [60, 40]) \<or>
         (extended_statistic m = JStr ''Sum'' \<and> ''Sum'' \<noteq> [] \<and>
            map (\<lambda>dp. map_of dp ''ExtendedStatistics'') [[(''Sum'', DNum 60)], [(''Sum'', DNum 40)]]
              = map (\<lambda>ext. Some (DMap ext)) [] \<and>
            map (\<lambda>ext. map_of ext ''Sum'') [] = map Some [60, 40])"
    unfolding m_def by (simp add: ex_defs)
  define w2 where "w2 = snd (Cloudwatch_client ex_tail_backend ex_world)"
  have c': "Cloudwatch_client ex_tail_backend ex_world = (Inr (), w2)"
    unfolding w2_def by (simp add: ex_tail_backend_def ex_world_def read_defs)
  have g': "get_metric_statistics ex_tail_backend (calls w2) (namespace ex_p99_metric)
              (metric_name ex_p99_metric) (dimensions ex_p99_metric) (stat_args ex_p99_metric)
            = Inr [[(''ExtendedStatistics'', DMap [(''p99'', 7)])],
                   [(''ExtendedStatistics'', DMap [(''p99'', 5)])]]"
    by (simp add: ex_tail_backend_def)
  have x': "(\<not> truthy (extended_statistic ex_p99_metric) \<and> statistic ex_p99_metric = JStr ''p99'' \<and>
            map (\<lambda>dp. map_of dp ''p99'') [[(''ExtendedStatistics'', DMap [(''p99'', 7)])],
                   [(''ExtendedStatistics'', DMap [(''p99'', 5)])]]
              = map (\<lambda>v. Some (DNum v)) [7, 5]) \<or>
         (extended_statistic ex_p99_metric = JStr ''p99'' \<and> ''p99'' \<noteq> [] \<and>
            map (\<lambda>dp. map_of dp ''ExtendedStatistics'') [[(''ExtendedStatistics'', DMap [(''p99'', 7)])],
                   [(''ExtendedStatistics'', DMap [(''p99'', 5)])]]
              = map (\<lambda>ext. Some (DMap ext)) [[(''p99'', 7)], [(''p99'', 5)]] \<and>
            map (\<lambda>ext. map_of ext ''p99'') [[(''p99'', 7)], [(''p99'', 5)]] = map Some [7, 5])"
    by (simp add: ex_p99_metric_def)
  from SingleMetric_sum_adds_all [OF c g x] SingleMetric_sum_adds_all [OF c' g' x']
  show ?thesis
    unfolding m_def by (simp add: ex_defs ex_p99_metric_def)
qed


lemma requested_stat_absent_raises:
  "requested_stat_absent m dp \<Longrightarrow> \<exists>e. extract_stat m dp = Inl e"
  by (auto simp: requested_stat_absent_def extract_stat_def dict_getitem_def
      split: if_splits option.splits dpval.splits json.splits)

lemma sum_datapoints_raises:
  "dp \<in> set dps \<Longrightarrow> extract_stat m dp = Inl e \<Longrightarrow> \<exists>e'. sum_datapoints m dps t = Inl e'"
proof (induction dps arbitrary: t)
  case Nil
  then show ?case by simp
next
  case (Cons d dps)
  show ?case
  proof (cases "d = dp")
    case True
    with Cons.prems show ?thesis by simp
  next
    case False
    with Cons.prems have "dp \<in> set dps" by simp
    from Cons.IH [OF this Cons.prems(2)] show ?thesis
      by (auto split: sum.splits)
  qed
qed

text \<open>
  Claim C6. When some datapoint of the answer lacks the requested statistic key, \<open>sum\<close>
  raises (a KeyError from that datapoint, unless a TypeError or IndexError of the same
  loop comes first): the datapoint is never counted as zero.
\<close>

theorem missing_statistic_raises:
  assumes "Cloudwatch_client bk w = (Inr (), w1)"
    and "get_metric_statistics bk (calls w1) (namespace m) (metric_name m) (dimensions m)
           (stat_args m) = Inr dps"
    and "dp \<in> set dps"
    and "requested_stat_absent m dp"
  shows "\<exists>e. fst (SingleMetric_sum bk m w) = Inl e \<and> (e = KeyError \<or> e = TypeError \<or> e = IndexError)"
proof -
  from requested_stat_absent_raises [OF assms(4)] obtain e0 where "extract_stat m dp = Inl e0" ..
  from sum_datapoints_raises [OF assms(3) this] obtain e where e: "sum_datapoints m dps 0 = Inl e" ..
  from sum_datapoints_errors [OF e] have "e = KeyError \<or> e = TypeError \<or> e = IndexError" .
  moreover from assms(1,2) e have "fst (SingleMetric_sum bk m w) = Inl e"
    by (simp add: SingleMetric_sum_def Let_def)
  ultimately show ?thesis by blast
qed

text \<open>A datapoint with an average only, read for its sum.\<close>

theorem missing_statistic_raises_witness:
  "fst (SingleMetric_sum ex_backend (ex_metric ''Latency'') ex_world) = Inl KeyError"
proof -
  define w1 where "w1 = snd (Cloudwatch_client ex_backend ex_world)"
  have c: "Cloudwatch_client ex_backend ex_world = (Inr (), w1)"
    unfolding w1_def by (simp add: ex_defs read_defs)
  have g: "get_metric_statistics ex_backend (calls w1) (namespace (ex_metric ''Latency''))
             (metric_name (ex_metric ''Latency'')) (dimensions (ex_metric ''Latency''))
             (stat_args (ex_metric ''Latency'')) = Inr [[(''Average'', DNum 3)]]"
    by (simp add: ex_defs)
  have i: "[(''Average'', DNum 3)] \<in> set [[(''Average'', DNum 3)]]" by simp
  have a: "requested_stat_absent (ex_metric ''Latency'') [(''Average'', DNum 3)]"
    by (simp add: requested_stat_absent_def ex_defs)
  from missing_statistic_raises [OF c g i a]
  obtain e where "fst (SingleMetric_sum ex_backend (ex_metric ''Latency'') ex_world) = Inl e" by blast
  moreover have "fst (SingleMetric_sum ex_backend (ex_metric ''Latency'') ex_world) \<noteq> Inl TypeError"
    "fst (SingleMetric_sum ex_backend (ex_metric ''Latency'') ex_world) \<noteq> Inl IndexError"
    by (simp_all add: ex_defs read_defs)
  ultimately show ?thesis
    using missing_statistic_raises [OF c g i a] by auto
qed


subsection \<open>Construction of a metric\<close>

lemma ex_metric_built:
  "SingleMetric_init ex_lib ex_now (JInt 30) (ex_metric_json name) = Inr (ex_metric name)"
  by (simp add: ex_defs ex_metric_json_def init_defs)

lemma ex_sli_built:
  "SLI_init ex_lib 30 ex_now (ex_sli_json good all) = Inr (ex_sli good all)"
  by (simp add: ex_defs ex_sli_json_def ex_metric_json_def init_defs)

lemma SingleMetric_init_object:
  "SingleMetric_init lib now wd m = Inr x \<Longrightarrow> \<exists>kw. m = JObj kw"
  by (cases m) (simp_all add: SingleMetric_init_def)

lemma SingleMetric_init_fields:
  assumes "SingleMetric_init lib now wd (JObj kw) = Inr x"
  shows "extended_statistic x = kwarg kw ''extended_statistic'' JNull"
    and "statistic x = (if truthy (kwarg kw ''extended_statistic'' JNull) \<or> truthy (kwarg kw ''statistic'' JNull)
                        then kwarg kw ''statistic'' JNull else JStr ''Sum'')"
    and "ExtendedStatistics (stat_args x) =
           (if truthy (kwarg kw ''extended_statistic'' JNull)
            then Some [kwarg kw ''extended_statistic'' JNull] else None)"
    and "Statistics (stat_args x) =
           (if truthy (kwarg kw ''extended_statistic'' JNull) then None
            else if truthy (kwarg kw ''statistic'' JNull) then Some [kwarg kw ''statistic'' JNull]
            else Some [JStr ''Sum''])"
    and "EndTime (stat_args x) = now"
    and "period_seconds wd = Inr (Period (stat_args x))"
    and "\<exists>td. timedelta_days wd = Inr td \<and> StartTime (stat_args x) = now - td"
  using assms
  by (auto simp: SingleMetric_init_def Let_def datetime_sub_def split: if_splits sum.splits)

lemma ex_p99_built:
  "SingleMetric_init ex_lib ex_now (JInt 30) ex_p99_json = Inr ex_p99_metric"
  by (simp add: ex_defs ex_p99_json_def ex_p99_metric_def init_defs)

lemma build_metrics_window:
  "build_metrics lib now wd xs = Inr ms \<Longrightarrow> m \<in> set ms \<Longrightarrow>
   EndTime (stat_args m) = now \<and> period_seconds wd = Inr (Period (stat_args m)) \<and>
   (\<exists>td. timedelta_days wd = Inr td \<and> StartTime (stat_args m) = now - td)"
proof (induction xs arbitrary: ms)
  case Nil
  then show ?case by simp
next
  case (Cons x xs)
  from Cons.prems(1) obtain y ys where y: "SingleMetric_init lib now wd x = Inr y"
    and ys: "build_metrics lib now wd xs = Inr ys" and ms: "ms = y # ys"
    by (auto split: sum.splits)
  show ?case
  proof (cases "m = y")
    case True
    from y obtain kw where "x = JObj kw" by (auto dest: SingleMetric_init_object)
    with y True SingleMetric_init_fields(5-7) [of lib now wd kw y] show ?thesis by simp
  next
    case False
    with Cons.prems(2) ms have "m \<in> set ys" by simp
    from Cons.IH [OF ys this] show ?thesis .
  qed
qed

lemma CompositeMetric_init_window:
  "CompositeMetric_init lib now wd x = Inr c \<Longrightarrow> m \<in> set (metrics c) \<Longrightarrow>
   EndTime (stat_args m) = now \<and> period_seconds wd = Inr (Period (stat_args m)) \<and>
   (\<exists>td. timedelta_days wd = Inr td \<and> StartTime (stat_args m) = now - td)"
  by (auto simp: CompositeMetric_init_def split: sum.splits dest!: build_metrics_window)

lemma SLI_init_parts:
  assumes "SLI_init lib wd now (JObj kw) = Inr s"
  shows "CompositeMetric_init lib now
           (if kwarg kw ''window_days'' (JInt wd) = JNull then JInt wd else kwarg kw ''window_days'' (JInt wd))
           (kwarg kw ''numerator'' JNull) = Inr (numerator s)"
    and "CompositeMetric_init lib now
           (if kwarg kw ''window_days'' (JInt wd) = JNull then JInt wd else kwarg kw ''window_days'' (JInt wd))
           (kwarg kw ''denominator'' JNull) = Inr (denominator s)"
  using assms
  by (auto simp: SLI_init_def Let_def split: if_splits sum.splits)

lemma SingleMetric_sum_call:
  "Cloudwatch_client bk w = (Inr (), w1) \<Longrightarrow>
   calls (snd (SingleMetric_sum bk m w)) =
     calls w1 @ [GetMetricStatistics (namespace m) (metric_name m) (dimensions m) (stat_args m)]"
  by (simp add: SingleMetric_sum_def Let_def log_call_def split: sum.splits)

lemma timedelta_period: "timedelta_days wd = Inr td \<Longrightarrow> \<exists>p. period_seconds wd = Inr p"
  by (cases wd) (simp_all add: timedelta_days_def period_seconds_def)

lemma SingleMetric_init_builds:
  assumes "bind_kwargs [''namespace'', ''metric_name'', ''dimensions'']
             [''statistic'', ''extended_statistic'', ''multiplier''] kw"
    and "py_float lib (kwarg kw ''multiplier'' (JFloat 1)) = Inr mult"
    and "timedelta_days wd = Inr td"
    and "datetime_sub now td = Inr start"
  shows "\<exists>m. SingleMetric_init lib now wd (JObj kw) = Inr m \<and>
             namespace m = kwarg kw ''namespace'' JNull \<and>
             metric_name m = kwarg kw ''metric_name'' JNull \<and>
             dimensions m = kwarg kw ''dimensions'' JNull \<and>
             multiplier m = mult \<and>
             StartTime (stat_args m) = start"
proof -
  from timedelta_period [OF assms(3)] obtain p where "period_seconds wd = Inr p" ..
  with assms show ?thesis
    by (simp add: SingleMetric_init_def Let_def)
qed


subsection \<open>The statistic of a metric\<close>

text \<open>
  Claim C5. A spec that gives neither \<open>statistic\<close> nor \<open>extended_statistic\<close> (absent
  or null), and whose arguments bind, whose multiplier converts and whose window is in
  range, builds a metric that uses Sum: the statistic stored is Sum, the arguments of
  its backend query ask for the statistic Sum and for no extended statistic, and the
  value read from a datapoint is the one under the key Sum.
\<close>

theorem default_statistic_is_Sum:
  assumes "bind_kwargs [''namespace'', ''metric_name'', ''dimensions'']
             [''statistic'', ''extended_statistic'', ''multiplier''] kw"
    and "py_float lib (kwarg kw ''multiplier'' (JFloat 1)) = Inr mult"
    and "timedelta_days wd = Inr td"
    and "datetime_sub now td = Inr start"
    and "map_of kw ''statistic'' \<in> {None, Some JNull}"
    and "map_of kw ''extended_statistic'' \<in> {None, Some JNull}"
  shows "\<exists>m. SingleMetric_init lib now wd (JObj kw) = Inr m \<and>
           namespace m = kwarg kw ''namespace'' JNull \<and>
           metric_name m = kwarg kw ''metric_name'' JNull \<and>
           dimensions m = kwarg kw ''dimensions'' JNull \<and>
           multiplier m = mult \<and>
           StartTime (stat_args m) = start \<and>
           statistic m = JStr ''Sum'' \<and>
           Statistics (stat_args m) = Some [JStr ''Sum''] \<and>
           ExtendedStatistics (stat_args m) = None \<and>
           (\<forall>bk w w1. Cloudwatch_client bk w = (Inr (), w1) \<longrightarrow>
              calls (snd (SingleMetric_sum bk m w)) =
                calls w1 @ [GetMetricStatistics (namespace m) (metric_name m) (dimensions m) (stat_args m)]) \<and>
           (\<forall>datapoint. extract_stat m datapoint = dict_getitem datapoint (JStr ''Sum''))"
proof -
  from SingleMetric_init_builds [OF assms(1-4)] obtain m
    where m: "SingleMetric_init lib now wd (JObj kw) = Inr m"
      and f: "namespace m = kwarg kw ''namespace'' JNull"
        "metric_name m = kwarg kw ''metric_name'' JNull"
        "dimensions m = kwarg kw ''dimensions'' JNull"
        "multiplier m = mult" "StartTime (stat_args m) = start"
    by blast
  from assms(5,6) have n: "\<not> truthy (kwarg kw ''statistic'' JNull)"
    "\<not> truthy (kwarg kw ''extended_statistic'' JNull)"
    by (auto simp: kwarg_def)
  with SingleMetric_init_fields [OF m]
  have s: "Statistics (stat_args m) = Some [JStr ''Sum'']" "ExtendedStatistics (stat_args m) = None"
    "statistic m = JStr ''Sum''" "\<not> truthy (extended_statistic m)"
    by simp_all
  then have x: "\<forall>datapoint. extract_stat m datapoint = dict_getitem datapoint (JStr ''Sum'')"
    by (simp add: extract_stat_def)
  show ?thesis
  proof (intro exI conjI)
    show "SingleMetric_init lib now wd (JObj kw) = Inr m" by (rule m)
  qed (use f s x in \<open>simp_all add: SingleMetric_sum_call\<close>)
qed

text \<open>The constructor on a spec without statistic.\<close>

theorem default_statistic_is_Sum_witness:
  "SingleMetric_init ex_lib ex_now (JInt 30) (ex_metric_json ''Ok'') = Inr (ex_metric ''Ok'') \<and>
   Statistics (stat_args (ex_metric ''Ok'')) = Some [JStr ''Sum''] \<and>
   extract_stat (ex_metric ''Ok'') [(''Sum'', DNum 95), (''Average'', DNum 5)] = Inr (DNum 95)"
proof -
  define kw where "kw = [(''namespace'', JStr ''int/sli''), (''metric_name'', JStr ''Ok''),
             (''dimensions'', JList [])]"
  have b: "bind_kwargs [''namespace'', ''metric_name'', ''dimensions'']
             [''statistic'', ''extended_statistic'', ''multiplier''] kw"
    by (simp add: kw_def bind_kwargs_def)
  have f: "py_float ex_lib (kwarg kw ''multiplier'' (JFloat 1)) = Inr 1"
    by (simp add: kw_def kwarg_def py_float_def)
  have t: "timedelta_days (JInt 30) = Inr (30 * us_per_day)"
    by (simp add: timedelta_days_def us_per_day_def)
  have d: "datetime_sub ex_now (30 * us_per_day) = Inr (ex_now - 30 * us_per_day)"
    by (simp add: datetime_sub_def datetime_max_def us_per_day_def ex_now_def)
  have s: "map_of kw ''statistic'' \<in> {None, Some JNull}"
    "map_of kw ''extended_statistic'' \<in> {None, Some JNull}"
    by (simp_all add: kw_def)
  from default_statistic_is_Sum [OF b f t d s] obtain m
    where m: "SingleMetric_init ex_lib ex_now (JInt 30) (JObj kw) = Inr m"
      and p: "Statistics (stat_args m) = Some [JStr ''Sum'']"
        "\<forall>datapoint. extract_stat m datapoint = dict_getitem datapoint (JStr ''Sum'')"
    by blast
  have k: "JObj kw = ex_metric_json ''Ok''" by (simp add: kw_def ex_metric_json_def)
  with m ex_metric_built [of "''Ok''"] have "m = ex_metric ''Ok''" by simp
  with m p k show ?thesis by (simp add: dict_getitem_def)
qed


text \<open>A spec with the statistic Average and the empty string as extended statistic:
  the metric built requests and reads Average.\<close>

theorem extended_statistic_counterexample:
  "SingleMetric_init ex_lib ex_now (JInt 30) ex_empty_ext_json = Inr ex_empty_ext_metric \<and>
   Statistics (stat_args ex_empty_ext_metric) = Some [JStr ''Average''] \<and>
   ExtendedStatistics (stat_args ex_empty_ext_metric) = None \<and>
   extract_stat ex_empty_ext_metric
     [(''Average'', DNum 3), (''ExtendedStatistics'', DMap [('''', 7)])] = Inr (DNum 3)"
  by (simp add: ex_defs ex_empty_ext_json_def ex_empty_ext_metric_def init_defs
      extract_stat_def dict_getitem_def)

text \<open>
  Claim C9, amended. A spec that gives both a statistic and an extended statistic that
  is not empty (truthy, the test of the code), and whose arguments bind, whose
  multiplier converts and whose window is in range, builds a metric that uses the
  extended statistic only: the arguments of its backend query carry
  \<open>ExtendedStatistics\<close> and no \<open>Statistics\<close>, the value read from a datapoint is the
  one under the extended statistic's name in the datapoint's \<open>ExtendedStatistics\<close>, and
  the statistic, stored as given, has no influence on \<open>sum\<close>.
\<close>

theorem extended_statistic_wins:
  assumes "bind_kwargs [''namespace'', ''metric_name'', ''dimensions'']
             [''statistic'', ''extended_statistic'', ''multiplier''] kw"
    and "py_float lib (kwarg kw ''multiplier'' (JFloat 1)) = Inr mult"
    and "timedelta_days wd = Inr td"
    and "datetime_sub now td = Inr start"
    and "map_of kw ''statistic'' = Some stat"
    and "map_of kw ''extended_statistic'' = Some ext"
    and "truthy ext"
  shows "\<exists>m. SingleMetric_init lib now wd (JObj kw) = Inr m \<and>
           namespace m = kwarg kw ''namespace'' JNull \<and>
           metric_name m = kwarg kw ''metric_name'' JNull \<and>
           dimensions m = kwarg kw ''dimensions'' JNull \<and>
           multiplier m = mult \<and>
           StartTime (stat_args m) = start \<and>
           statistic m = stat \<and>
           extended_statistic m = ext \<and>
           ExtendedStatistics (stat_args m) = Some [ext] \<and>
           Statistics (stat_args m) = None \<and>
           (\<forall>bk w w1. Cloudwatch_client bk w = (Inr (), w1) \<longrightarrow>
              calls (snd (SingleMetric_sum bk m w)) =
                calls w1 @ [GetMetricStatistics (namespace m) (metric_name m) (dimensions m) (stat_args m)]) \<and>
           (\<forall>datapoint. extract_stat m datapoint =
              (case dict_getitem datapoint (JStr ''ExtendedStatistics'') of
                 Inl e \<Rightarrow> Inl e
               | Inr (DMap values) \<Rightarrow>
                   (case dict_getitem values ext of Inl e \<Rightarrow> Inl e | Inr v \<Rightarrow> Inr (DNum v))
               | Inr (DStr s) \<Rightarrow> str_getitem s ext
               | Inr _ \<Rightarrow> Inl TypeError)) \<and>
           (\<forall>other bk w. SingleMetric_sum bk (m\<lparr>statistic := other\<rparr>) w = SingleMetric_sum bk m w)"
proof -
  from SingleMetric_init_builds [OF assms(1-4)] obtain m
    where m: "SingleMetric_init lib now wd (JObj kw) = Inr m"
      and g: "namespace m = kwarg kw ''namespace'' JNull"
        "metric_name m = kwarg kw ''metric_name'' JNull"
        "dimensions m = kwarg kw ''dimensions'' JNull"
        "multiplier m = mult" "StartTime (stat_args m) = start"
    by blast
  from assms(5-7) have t: "kwarg kw ''extended_statistic'' JNull = ext" "truthy ext"
    "kwarg kw ''statistic'' JNull = stat"
    by (simp_all add: kwarg_def)
  with SingleMetric_init_fields [OF m]
  have f: "ExtendedStatistics (stat_args m) = Some [ext]" "Statistics (stat_args m) = None"
    "extended_statistic m = ext" "statistic m = stat"
    by simp_all
  have x: "extract_stat (m\<lparr>statistic := other\<rparr>) = extract_stat m" for other
    using f(3) t(2) by (auto simp: extract_stat_def fun_eq_iff split: sum.splits dpval.splits)
  have s: "sum_datapoints (m\<lparr>statistic := other\<rparr>) dps t = sum_datapoints m dps t" for other dps t
    by (induction dps arbitrary: t) (simp_all add: x split: sum.splits)
  have i: "\<forall>other bk w. SingleMetric_sum bk (m\<lparr>statistic := other\<rparr>) w = SingleMetric_sum bk m w"
    by (simp add: SingleMetric_sum_def Let_def s split: prod.splits sum.splits)
  have e: "\<forall>datapoint. extract_stat m datapoint =
              (case dict_getitem datapoint (JStr ''ExtendedStatistics'') of
                 Inl e \<Rightarrow> Inl e
               | Inr (DMap values) \<Rightarrow>
                   (case dict_getitem values ext of Inl e \<Rightarrow> Inl e | Inr v \<Rightarrow> Inr (DNum v))
               | Inr (DStr s) \<Rightarrow> str_getitem s ext
               | Inr _ \<Rightarrow> Inl TypeError)"
    using f(3) t(2) by (auto simp: extract_stat_def split: sum.splits dpval.splits)
  show ?thesis
  proof (intro exI conjI)
    show "SingleMetric_init lib now wd (JObj kw) = Inr m" by (rule m)
  qed (use g f i e in \<open>simp_all add: SingleMetric_sum_call\<close>)
qed

text \<open>The constructor on a spec with the statistic Average and the extended statistic
  p99.\<close>

theorem extended_statistic_wins_witness:
  "SingleMetric_init ex_lib ex_now (JInt 30) ex_p99_json = Inr ex_p99_metric \<and>
   ExtendedStatistics (stat_args ex_p99_metric) = Some [JStr ''p99''] \<and>
   Statistics (stat_args ex_p99_metric) = None \<and>
   extract_stat ex_p99_metric
     [(''Average'', DNum 3), (''ExtendedStatistics'', DMap [(''p99'', 7)])] = Inr (DNum 7)"
proof -
  define kw where "kw = [(''namespace'', JStr ''int/sli''), (''metric_name'', JStr ''Latency''),
             (''dimensions'', JList []), (''statistic'', JStr ''Average''),
             (''extended_statistic'', JStr ''p99'')]"
  have b: "bind_kwargs [''namespace'', ''metric_name'', ''dimensions'']
             [''statistic'', ''extended_statistic'', ''multiplier''] kw"
    by (simp add: kw_def bind_kwargs_def)
  have f: "py_float ex_lib (kwarg kw ''multiplier'' (JFloat 1)) = Inr 1"
    by (simp add: kw_def kwarg_def py_float_def)
  have t: "timedelta_days (JInt 30) = Inr (30 * us_per_day)"
    by (simp add: timedelta_days_def us_per_day_def)
  have d: "datetime_sub ex_now (30 * us_per_day) = Inr (ex_now - 30 * us_per_day)"
    by (simp add: datetime_sub_def datetime_max_def us_per_day_def ex_now_def)
  have s: "map_of kw ''statistic'' = Some (JStr ''Average'')"
    "map_of kw ''extended_statistic'' = Some (JStr ''p99'')" "truthy (JStr ''p99'')"
    by (simp_all add: kw_def)
  from extended_statistic_wins [OF b f t d s] obtain m
    where m: "SingleMetric_init ex_lib ex_now (JInt 30) (JObj kw) = Inr m"
      and p: "ExtendedStatistics (stat_args m) = Some [JStr ''p99'']" "Statistics (stat_args m) = None"
        "\<forall>datapoint. extract_stat m datapoint =
              (case dict_getitem datapoint (JStr ''ExtendedStatistics'') of
                 Inl e \<Rightarrow> Inl e
               | Inr (DMap values) \<Rightarrow>
                   (case dict_getitem values (JStr ''p99'') of Inl e \<Rightarrow> Inl e | Inr v \<Rightarrow> Inr (DNum v))
               | Inr (DStr s) \<Rightarrow> str_getitem s (JStr ''p99'')
               | Inr _ \<Rightarrow> Inl TypeError)"
    by blast
  have k: "JObj kw = ex_p99_json" by (simp add: kw_def ex_p99_json_def)
  with m ex_p99_built have "m = ex_p99_metric" by simp
  with m p k show ?thesis by (simp add: dict_getitem_def)
qed


subsection \<open>The window of an SLI\<close>

lemma build_metrics_map:
  "build_metrics lib now wd xs = Inr ms \<Longrightarrow> map (SingleMetric_init lib now wd) xs = map Inr ms"
  by (induction xs arbitrary: ms) (auto split: sum.splits)

lemma CompositeMetric_init_map:
  "CompositeMetric_init lib now wd (JList xs) = Inr c \<Longrightarrow>
   map Inr (metrics c) = map (SingleMetric_init lib now wd) xs"
  by (auto simp: CompositeMetric_init_def py_iter_def split: sum.splits dest: build_metrics_map)

lemma SLI_init_bound:
  assumes "bind_kwargs [''numerator'', ''denominator''] [''window_days''] kw"
  shows "SLI_init lib wd now (JObj kw) =
           (let given = kwarg kw ''window_days'' (JInt wd);
                window_days = (if given = JNull then JInt wd else given)
            in case CompositeMetric_init lib now window_days (kwarg kw ''numerator'' JNull) of
                 Inl e \<Rightarrow> Inl e
               | Inr num \<Rightarrow>
                   (case CompositeMetric_init lib now window_days (kwarg kw ''denominator'' JNull) of
                      Inl e \<Rightarrow> Inl e
                    | Inr den \<Rightarrow> Inr \<lparr>numerator = num, denominator = den\<rparr>))"
  using assms by (simp add: SLI_init_def)

text \<open>
  Claim C8. An entry without \<open>window_days\<close> (absent, or null) whose arguments bind is
  built with the module default \<open>WINDOW_DAYS\<close> as the window of both composites: the
  result of \<open>SLI\<close> is that of building the numerator and the denominator with this
  window, and it is the result for the same entry with \<open>window_days\<close> set to
  \<open>WINDOW_DAYS\<close>. In the SLI built, the metrics of a numerator or denominator list
  are those that \<open>SingleMetric\<close> builds from the specs of the list with this window,
  and every query has that number of days in seconds as its period and starts that
  number of days before now.
\<close>

theorem default_window_days:
  assumes "bind_kwargs [''numerator'', ''denominator''] [''window_days''] kw"
    and "map_of kw ''window_days'' \<in> {None, Some JNull}"
  shows "SLI_init lib wd now (JObj kw) =
           (case CompositeMetric_init lib now (JInt wd) (kwarg kw ''numerator'' JNull) of
              Inl e \<Rightarrow> Inl e
            | Inr num \<Rightarrow>
                (case CompositeMetric_init lib now (JInt wd) (kwarg kw ''denominator'' JNull) of
                   Inl e \<Rightarrow> Inl e
                 | Inr den \<Rightarrow> Inr \<lparr>numerator = num, denominator = den\<rparr>)) \<and>
         (map_of kw ''window_days'' = None \<longrightarrow>
            SLI_init lib wd now (JObj kw) = SLI_init lib wd now (JObj ((''window_days'', JInt wd) # kw))) \<and>
         (\<forall>s. SLI_init lib wd now (JObj kw) = Inr s \<longrightarrow>
            (\<forall>num. kwarg kw ''numerator'' JNull = JList num \<longrightarrow>
               map Inr (metrics (numerator s)) = map (SingleMetric_init lib now (JInt wd)) num) \<and>
            (\<forall>den. kwarg kw ''denominator'' JNull = JList den \<longrightarrow>
               map Inr (metrics (denominator s)) = map (SingleMetric_init lib now (JInt wd)) den) \<and>
            (\<forall>m \<in> set (metrics (numerator s)) \<union> set (metrics (denominator s)).
               Period (stat_args m) = JInt (wd * 24 * 60 * 60) \<and>
               StartTime (stat_args m) = now - wd * us_per_day \<and>
               EndTime (stat_args m) = now))"
proof -
  from assms(2) have w: "(if kwarg kw ''window_days'' (JInt wd) = JNull then JInt wd
                          else kwarg kw ''window_days'' (JInt wd)) = JInt wd"
    by (auto simp: kwarg_def)
  have eq: "SLI_init lib wd now (JObj kw) =
           (case CompositeMetric_init lib now (JInt wd) (kwarg kw ''numerator'' JNull) of
              Inl e \<Rightarrow> Inl e
            | Inr num \<Rightarrow>
                (case CompositeMetric_init lib now (JInt wd) (kwarg kw ''denominator'' JNull) of
                   Inl e \<Rightarrow> Inl e
                 | Inr den \<Rightarrow> Inr \<lparr>numerator = num, denominator = den\<rparr>))"
    unfolding SLI_init_bound [OF assms(1)] Let_def w by (rule refl)
  have explicit: "map_of kw ''window_days'' = None \<longrightarrow>
            SLI_init lib wd now (JObj kw) = SLI_init lib wd now (JObj ((''window_days'', JInt wd) # kw))"
  proof
    assume none: "map_of kw ''window_days'' = None"
    from assms(1) have b: "bind_kwargs [''numerator'', ''denominator''] [''window_days'']
                             ((''window_days'', JInt wd) # kw)"
      by (auto simp: bind_kwargs_def)
    have k: "kwarg ((''window_days'', JInt wd) # kw) ''numerator'' JNull = kwarg kw ''numerator'' JNull"
      "kwarg ((''window_days'', JInt wd) # kw) ''denominator'' JNull = kwarg kw ''denominator'' JNull"
      "kwarg ((''window_days'', JInt wd) # kw) ''window_days'' (JInt wd) = JInt wd"
      by (simp_all add: kwarg_def)
    show "SLI_init lib wd now (JObj kw) = SLI_init lib wd now (JObj ((''window_days'', JInt wd) # kw))"
      unfolding eq SLI_init_bound [OF b] Let_def k by simp
  qed
  have built: "\<forall>s. SLI_init lib wd now (JObj kw) = Inr s \<longrightarrow>
            (\<forall>num. kwarg kw ''numerator'' JNull = JList num \<longrightarrow>
               map Inr (metrics (numerator s)) = map (SingleMetric_init lib now (JInt wd)) num) \<and>
            (\<forall>den. kwarg kw ''denominator'' JNull = JList den \<longrightarrow>
               map Inr (metrics (denominator s)) = map (SingleMetric_init lib now (JInt wd)) den) \<and>
            (\<forall>m \<in> set (metrics (numerator s)) \<union> set (metrics (denominator s)).
               Period (stat_args m) = JInt (wd * 24 * 60 * 60) \<and>
               StartTime (stat_args m) = now - wd * us_per_day \<and>
               EndTime (stat_args m) = now)"
  proof (intro allI impI)
    fix s
    assume s: "SLI_init lib wd now (JObj kw) = Inr s"
    from SLI_init_parts [OF s] w
    have n: "CompositeMetric_init lib now (JInt wd) (kwarg kw ''numerator'' JNull) = Inr (numerator s)"
      and d: "CompositeMetric_init lib now (JInt wd) (kwarg kw ''denominator'' JNull) = Inr (denominator s)"
      by simp_all
    have a: "\<forall>num. kwarg kw ''numerator'' JNull = JList num \<longrightarrow>
               map Inr (metrics (numerator s)) = map (SingleMetric_init lib now (JInt wd)) num"
      using n by (auto dest: CompositeMetric_init_map)
    have b: "\<forall>den. kwarg kw ''denominator'' JNull = JList den \<longrightarrow>
               map Inr (metrics (denominator s)) = map (SingleMetric_init lib now (JInt wd)) den"
      using d by (auto dest: CompositeMetric_init_map)
    have c: "\<forall>m \<in> set (metrics (numerator s)) \<union> set (metrics (denominator s)).
               Period (stat_args m) = JInt (wd * 24 * 60 * 60) \<and>
               StartTime (stat_args m) = now - wd * us_per_day \<and>
               EndTime (stat_args m) = now"
    proof
      fix m
      assume m: "m \<in> set (metrics (numerator s)) \<union> set (metrics (denominator s))"
      with n d have "EndTime (stat_args m) = now \<and>
         period_seconds (JInt wd) = Inr (Period (stat_args m)) \<and>
         (\<exists>td. timedelta_days (JInt wd) = Inr td \<and> StartTime (stat_args m) = now - td)"
        by (auto dest: CompositeMetric_init_window)
      then show "Period (stat_args m) = JInt (wd * 24 * 60 * 60) \<and>
             StartTime (stat_args m) = now - wd * us_per_day \<and> EndTime (stat_args m) = now"
        by (auto simp: period_seconds_def timedelta_days_def Let_def split: if_splits)
    qed
    from a b c show "(\<forall>num. kwarg kw ''numerator'' JNull = JList num \<longrightarrow>
               map Inr (metrics (numerator s)) = map (SingleMetric_init lib now (JInt wd)) num) \<and>
            (\<forall>den. kwarg kw ''denominator'' JNull = JList den \<longrightarrow>
               map Inr (metrics (denominator s)) = map (SingleMetric_init lib now (JInt wd)) den) \<and>
            (\<forall>m \<in> set (metrics (numerator s)) \<union> set (metrics (denominator s)).
               Period (stat_args m) = JInt (wd * 24 * 60 * 60) \<and>
               StartTime (stat_args m) = now - wd * us_per_day \<and>
               EndTime (stat_args m) = now)"
      by (intro conjI)
  qed
  show ?thesis by (rule conjI [OF eq conjI [OF explicit built]])
qed

text \<open>The constructor on an entry without \<open>window_days\<close>, with a default of 30 days.\<close>

theorem default_window_days_witness:
  "SLI_init ex_lib 30 ex_now (ex_sli_json ''Ok'' ''Total'') = Inr (ex_sli ''Ok'' ''Total'') \<and>
   SLI_init ex_lib 30 ex_now (ex_sli_json ''Ok'' ''Total'') =
     SLI_init ex_lib 30 ex_now
       (JObj [(''window_days'', JInt 30), (''numerator'', JList [ex_metric_json ''Ok'']),
              (''denominator'', JList [ex_metric_json ''Total''])]) \<and>
   Period (stat_args (ex_metric ''Ok'')) = JInt 2592000 \<and>
   StartTime (stat_args (ex_metric ''Total'')) = 63900230400000000"
proof -
  define kw where "kw = [(''numerator'', JList [ex_metric_json ''Ok'']),
                         (''denominator'', JList [ex_metric_json ''Total''])]"
  have b: "bind_kwargs [''numerator'', ''denominator''] [''window_days''] kw"
    by (simp add: kw_def bind_kwargs_def)
  have a: "map_of kw ''window_days'' \<in> {None, Some JNull}" "map_of kw ''window_days'' = None"
    by (simp_all add: kw_def)
  have n: "CompositeMetric_init ex_lib ex_now (JInt 30) (kwarg kw ''numerator'' JNull)
             = Inr \<lparr>metrics = [ex_metric ''Ok'']\<rparr>"
    by (simp add: kw_def kwarg_def CompositeMetric_init_def py_iter_def ex_metric_built)
  have d: "CompositeMetric_init ex_lib ex_now (JInt 30) (kwarg kw ''denominator'' JNull)
             = Inr \<lparr>metrics = [ex_metric ''Total'']\<rparr>"
    by (simp add: kw_def kwarg_def CompositeMetric_init_def py_iter_def ex_metric_built)
  note t = default_window_days [OF b a(1), of ex_lib 30 ex_now]
  from t n d have s: "SLI_init ex_lib 30 ex_now (JObj kw) = Inr (ex_sli ''Ok'' ''Total'')"
    by (simp add: ex_sli_def)
  from t a(2) have e: "SLI_init ex_lib 30 ex_now (JObj kw)
                        = SLI_init ex_lib 30 ex_now (JObj ((''window_days'', JInt 30) # kw))"
    by blast
  from t s have "\<forall>m \<in> set (metrics (numerator (ex_sli ''Ok'' ''Total'')))
                     \<union> set (metrics (denominator (ex_sli ''Ok'' ''Total''))).
               Period (stat_args m) = JInt (30 * 24 * 60 * 60) \<and>
               StartTime (stat_args m) = ex_now - 30 * us_per_day \<and>
               EndTime (stat_args m) = ex_now"
    by blast
  then have p: "Period (stat_args (ex_metric ''Ok'')) = JInt 2592000"
    "StartTime (stat_args (ex_metric ''Total'')) = 63900230400000000"
    by (simp_all add: ex_sli_def ex_now_def us_per_day_def)
  have k: "JObj kw = ex_sli_json ''Ok'' ''Total''" by (simp add: kw_def ex_sli_json_def)
  from s e p k show ?thesis by (simp add: kw_def)
qed


subsection \<open>Empty composites\<close>

lemma ex_empty_den_built:
  "SLI_init ex_lib 30 ex_now ex_empty_den_json = Inr ex_empty_den_sli"
  by (simp add: ex_defs ex_empty_den_json_def ex_empty_den_sli_def ex_metric_json_def init_defs)

text \<open>An SLI with an empty denominator list and a numerator metric that the backend
  rejects: \<open>get_ratio\<close> raises the ClientError of the numerator, not
  ZeroDivisionError.\<close>

theorem empty_denominator_counterexample:
  "SLI_init ex_lib 30 ex_now ex_empty_den_json = Inr ex_empty_den_sli \<and>
   metrics (denominator ex_empty_den_sli) = [] \<and>
   fst (get_ratio ex_backend ex_empty_den_sli ex_world) = Inl ClientError \<and>
   fst (get_ratio ex_backend ex_empty_den_sli ex_world) \<noteq> Inl ZeroDivisionError"
  by (simp add: ex_empty_den_built) (simp add: ex_defs ex_empty_den_sli_def read_defs)

lemma CompositeMetric_init_empty:
  "CompositeMetric_init lib now d (JList []) = Inr \<lparr>metrics = []\<rparr>"
  by (simp add: CompositeMetric_init_def py_iter_def)

text \<open>
  Claim C10, amended. A composite built from an empty list sums to 0 without a backend
  call (the world is unchanged). For an SLI built with an empty denominator list,
  \<open>get_ratio\<close> never returns a value: it raises what the sum of the numerator raises,
  and ZeroDivisionError when the sum of the numerator returns; with an empty numerator
  list too it raises ZeroDivisionError without a backend call.
\<close>

theorem empty_composite_sum:
  "(CompositeMetric_init lib now d (JList []) = Inr c \<longrightarrow> CompositeMetric_sum bk c w = (Inr 0, w)) \<and>
   (SLI_init lib wd now (JObj kw) = Inr s \<longrightarrow> map_of kw ''denominator'' = Some (JList []) \<longrightarrow>
      get_ratio bk s w =
        (case CompositeMetric_sum bk (numerator s) w of
           (Inl e, w1) \<Rightarrow> (Inl e, w1)
         | (Inr n, w1) \<Rightarrow> (Inl ZeroDivisionError, w1)) \<and>
      (map_of kw ''numerator'' = Some (JList []) \<longrightarrow> get_ratio bk s w = (Inl ZeroDivisionError, w)))"
proof (intro conjI impI)
  assume "CompositeMetric_init lib now d (JList []) = Inr c"
  then have "c = \<lparr>metrics = []\<rparr>" by (simp add: CompositeMetric_init_empty)
  then have "metrics c = []" by simp
  then show "CompositeMetric_sum bk c w = (Inr 0, w)" by (simp add: CompositeMetric_sum_def)
next
  assume s: "SLI_init lib wd now (JObj kw) = Inr s"
    and d: "map_of kw ''denominator'' = Some (JList [])"
  from SLI_init_parts(2) [OF s] d have "denominator s = \<lparr>metrics = []\<rparr>"
    by (simp add: kwarg_def CompositeMetric_init_empty)
  then have "metrics (denominator s) = []" by simp
  then have den: "CompositeMetric_sum bk (denominator s) w' = (Inr 0, w')" for w'
    by (simp add: CompositeMetric_sum_def)
  show r: "get_ratio bk s w =
        (case CompositeMetric_sum bk (numerator s) w of
           (Inl e, w1) \<Rightarrow> (Inl e, w1)
         | (Inr n, w1) \<Rightarrow> (Inl ZeroDivisionError, w1))"
    by (simp add: get_ratio_def den split: prod.splits sum.splits)
  assume "map_of kw ''numerator'' = Some (JList [])"
  with SLI_init_parts(1) [OF s] have "numerator s = \<lparr>metrics = []\<rparr>"
    by (simp add: kwarg_def CompositeMetric_init_empty)
  then have "metrics (numerator s) = []" by simp
  then have "CompositeMetric_sum bk (numerator s) w = (Inr 0, w)"
    by (simp add: CompositeMetric_sum_def)
  with r show "get_ratio bk s w = (Inl ZeroDivisionError, w)" by simp
qed

text \<open>Both lists empty.\<close>

theorem empty_composite_sum_witness:
  "CompositeMetric_sum ex_backend \<lparr>metrics = []\<rparr> ex_world = (Inr 0, ex_world) \<and>
   get_ratio ex_backend \<lparr>numerator = \<lparr>metrics = []\<rparr>, denominator = \<lparr>metrics = []\<rparr>\<rparr> ex_world
     = (Inl ZeroDivisionError, ex_world)"
proof -
  have c: "CompositeMetric_init ex_lib ex_now (JInt 30) (JList []) = Inr \<lparr>metrics = []\<rparr>"
    by (simp add: CompositeMetric_init_def py_iter_def)
  have s: "SLI_init ex_lib 30 ex_now (JObj [(''numerator'', JList []), (''denominator'', JList [])])
             = Inr \<lparr>numerator = \<lparr>metrics = []\<rparr>, denominator = \<lparr>metrics = []\<rparr>\<rparr>"
    by (simp add: init_defs)
  have d: "map_of [(''numerator'', JList []), (''denominator'', JList [])] ''denominator'' = Some (JList [])"
    by simp
  have n: "map_of [(''numerator'', JList []), (''denominator'', JList [])] ''numerator'' = Some (JList [])"
    by simp
  from empty_composite_sum [of ex_lib ex_now "JInt 30" "\<lparr>metrics = []\<rparr>" ex_backend ex_world
      30 "[(''numerator'', JList []), (''denominator'', JList [])]"
      "\<lparr>numerator = \<lparr>metrics = []\<rparr>, denominator = \<lparr>metrics = []\<rparr>\<rparr>"] c s d n
  show ?thesis by blast
qed


subsection \<open>Process configuration\<close>

text \<open>
  Claim C7. When \<open>SLI_NAMESPACE\<close>, \<open>SLI_PREFIX\<close>, \<open>SLIS\<close> or \<open>WINDOW_DAYS\<close> is
  missing from the environment, or \<open>WINDOW_DAYS\<close> is not an integer, a run from a
  fresh process raises (TypeError or ValueError at import for \<open>WINDOW_DAYS\<close>,
  RuntimeError in the handler for the others) and leaves the world as it was: no
  backend call, no write, nothing printed. The handler alone, on a module whose
  \<open>SLI_NAMESPACE\<close>, \<open>SLI_PREFIX\<close> or \<open>SLIS\<close> is None, raises RuntimeError in the
  same way.
\<close>

theorem missing_configuration_is_fatal:
  "(getenv ''SLI_NAMESPACE'' = None \<or> getenv ''SLI_PREFIX'' = None \<or> getenv ''SLIS'' = None \<or>
    getenv ''WINDOW_DAYS'' = None \<or>
    (\<exists>s. getenv ''WINDOW_DAYS'' = Some s \<and> int_of_str lib s = None) \<longrightarrow>
      (\<exists>e. main lib getenv now bk w = (Inl e, w) \<and>
           (e = TypeError \<or> e = ValueError \<or> (\<exists>text. e = RuntimeError text)))) \<and>
   (SLI_NAMESPACE g = None \<or> SLI_PREFIX g = None \<or> SLIS g = None \<longrightarrow>
      (\<exists>text. lambda_handler lib g now bk w = (Inl (RuntimeError text), w)))"
proof (intro conjI impI)
  assume "getenv ''SLI_NAMESPACE'' = None \<or> getenv ''SLI_PREFIX'' = None \<or> getenv ''SLIS'' = None \<or>
    getenv ''WINDOW_DAYS'' = None \<or>
    (\<exists>s. getenv ''WINDOW_DAYS'' = Some s \<and> int_of_str lib s = None)"
  then show "\<exists>e. main lib getenv now bk w = (Inl e, w) \<and>
           (e = TypeError \<or> e = ValueError \<or> (\<exists>text. e = RuntimeError text))"
    by (auto simp: main_def load_module_def lambda_handler_def split: option.splits)
next
  assume "SLI_NAMESPACE g = None \<or> SLI_PREFIX g = None \<or> SLIS g = None"
  then show "\<exists>text. lambda_handler lib g now bk w = (Inl (RuntimeError text), w)"
    by (auto simp: lambda_handler_def split: option.splits)
qed

text \<open>An environment without \<open>SLI_NAMESPACE\<close>.\<close>

theorem missing_configuration_is_fatal_witness:
  "main ex_json_lib ex_getenv ex_now ex_backend ex_world =
     (Inl (RuntimeError ''SLI_NAMESPACE not set in environment''), ex_world)"
proof -
  have "ex_getenv ''SLI_NAMESPACE'' = None" by (simp add: ex_getenv_def)
  then have "ex_getenv ''SLI_NAMESPACE'' = None \<or> ex_getenv ''SLI_PREFIX'' = None \<or>
     ex_getenv ''SLIS'' = None \<or> ex_getenv ''WINDOW_DAYS'' = None \<or>
     (\<exists>s. ex_getenv ''WINDOW_DAYS'' = Some s \<and> int_of_str ex_json_lib s = None)" by simp
  with missing_configuration_is_fatal [of ex_getenv ex_json_lib ex_now ex_backend ex_world]
  obtain e where "main ex_json_lib ex_getenv ex_now ex_backend ex_world = (Inl e, ex_world)" by blast
  moreover have "fst (main ex_json_lib ex_getenv ex_now ex_backend ex_world)
                   = Inl (RuntimeError ''SLI_NAMESPACE not set in environment'')"
    by (simp add: main_def load_module_def lambda_handler_def ex_getenv_def ex_json_lib_def)
  ultimately show ?thesis by simp
qed


subsection \<open>Parsing\<close>

lemma dict_setitem_new:
  "k \<notin> fst ` set d \<Longrightarrow> dict_setitem d k v = d @ [(k, v)]"
  by (induction d) auto

lemma constructed_skipped_length:
  "length (constructed lib wd now cfgs) + length (skipped lib wd now cfgs) = length cfgs"
  by (induction cfgs) (auto split: sum.splits)

lemma parse_items_acc:
  assumes "distinct (map fst cfgs)"
    and "fst ` set cfgs \<inter> fst ` set slis = {}"
    and "\<forall>(n, c) \<in> set cfgs. \<forall>e. SLI_init lib wd now c = Inl e \<longrightarrow>
           e = KeyError \<or> e = TypeError \<or> e = ValueError"
  shows "parse_items lib wd now cfgs slis out =
           (Inr (slis @ constructed lib wd now cfgs), out @ skipped lib wd now cfgs)"
  using assms
proof (induction cfgs arbitrary: slis out)
  case Nil
  then show ?case by simp
next
  case (Cons entry cfgs)
  obtain n c where entry: "entry = (n, c)" by (cases entry)
  from Cons.prems(1) entry have dist: "distinct (map fst cfgs)" and fresh: "n \<notin> fst ` set cfgs"
    by auto
  from Cons.prems(3) have rest: "\<forall>(n, c) \<in> set cfgs. \<forall>e. SLI_init lib wd now c = Inl e \<longrightarrow>
           e = KeyError \<or> e = TypeError \<or> e = ValueError"
    by simp
  from Cons.prems(2) entry have new: "n \<notin> fst ` set slis" and disj: "fst ` set cfgs \<inter> fst ` set slis = {}"
    by auto
  show ?case
  proof (cases "SLI_init lib wd now c")
    case (Inl e)
    with Cons.prems(3) entry have "e = KeyError \<or> e = TypeError \<or> e = ValueError" by simp
    with Inl entry Cons.IH [OF dist disj rest, of "out @ [SkipMsg n e]"] show ?thesis by auto
  next
    case (Inr s)
    from fresh disj have "fst ` set cfgs \<inter> fst ` set (slis @ [(n, s)]) = {}" by auto
    from Cons.IH [OF dist this rest, of out] Inr entry dict_setitem_new [OF new, of s]
    show ?thesis by simp
  qed
qed

lemma SLI_init_missing_field:
  "map_of kw ''numerator'' = None \<or> map_of kw ''denominator'' = None \<Longrightarrow>
   SLI_init lib wd now (JObj kw) = Inl TypeError"
  by (auto simp: SLI_init_def bind_kwargs_def map_of_eq_None_iff)

lemma ex_slis_built:
  "SLI_init ex_json_lib 30 ex_now (JObj [(''numerator'', JList [JObj [(''namespace'', JStr ''int/sli''),
                                                 (''metric_name'', JStr ''Ok''),
                                                 (''dimensions'', JList [])]]),
                    (''denominator'', JList [JObj [(''namespace'', JStr ''int/sli''),
                                                   (''metric_name'', JStr ''Total''),
                                                   (''dimensions'', JList [])]])])
     = Inr (ex_sli ''Ok'' ''Total'')"
  "SLI_init ex_json_lib 30 ex_now (JObj [(''window_days'', JInt (- 1)),
                          (''numerator'', JList []),
                          (''denominator'', JList [JObj [(''namespace'', JStr ''int/sli''),
                                                         (''metric_name'', JStr ''Total''),
                                                         (''dimensions'', JList [])]])])
     = Inr ex_negative_sli"
  "SLI_init ex_json_lib 30 ex_now (JObj [(''numerator'', JList []),
                       (''denominator'', JList [JObj [(''namespace'', JStr ''int/sli''),
                                                      (''metric_name'', JStr ''Total''),
                                                      (''dimensions'', JList []),
                                                      (''statistic'', JStr ''Bogus'')]])])
     = Inr ex_bogus_sli"
  "SLI_init ex_json_lib 30 ex_now (JObj [(''denominator'', JList [])]) = Inl TypeError"
  by (simp_all add: ex_defs ex_json_lib_def ex_negative_sli_def ex_bogus_sli_def init_defs)

lemma ex_overflow_built:
  "SLI_init ex_json_lib 30 ex_now
     (JObj [(''window_days'', JInt 10000000000), (''numerator'', JList []),
            (''denominator'', JList [JObj [(''namespace'', JStr ''int/sli''),
                                           (''metric_name'', JStr ''Total''),
                                           (''dimensions'', JList [])]])])
     = Inl OverflowError"
  by (simp add: ex_defs ex_json_lib_def init_defs)

lemma ex_texts_differ: "ex_overflow_text \<noteq> ex_slis_text"
  by (simp add: ex_overflow_text_def ex_slis_text_def)

text \<open>The entry with a negative window and the one with an unknown statistic name
  are built and returned, not skipped; only the entry without numerator is skipped. A
  window beyond the range of \<open>timedelta\<close> raises OverflowError, which the loop does
  not catch.\<close>

theorem parse_sli_json_counterexample:
  "parse_sli_json ex_json_lib 30 ex_now ex_slis_text =
     (Inr [(''ok'', ex_sli ''Ok'' ''Total''), (''negative'', ex_negative_sli), (''bogus'', ex_bogus_sli)],
      [SkipMsg ''broken'' TypeError]) \<and>
   parse_sli_json ex_json_lib 30 ex_now ex_overflow_text = (Inl OverflowError, [])"
  by (simp add: parse_sli_json_def ex_json_lib_def ex_texts_differ ex_slis_json_def ex_slis_items_def
      ex_overflow_json_def ex_slis_built [unfolded ex_json_lib_def] ex_overflow_built [unfolded ex_json_lib_def])

text \<open>
  Claim C3, amended. For a configuration that decodes to an object, whose entries raise
  nothing but KeyError, TypeError or ValueError when constructed, \<open>parse_sli_json\<close>
  returns exactly the entries whose construction succeeds, in the order of the input,
  and prints one line for each of the others; the two groups add up to the input. An
  entry without numerator or denominator is among those skipped. What construction
  does not check (the sign of the window, the statistic names) does not make an entry
  malformed.
\<close>

theorem parse_sli_json_keeps_constructible:
  assumes "json_loads lib sli_json = Some (JObj cfgs)"
    and "distinct (map fst cfgs)"
    and "\<forall>(n, c) \<in> set cfgs. \<forall>e. SLI_init lib wd now c = Inl e \<longrightarrow>
           e = KeyError \<or> e = TypeError \<or> e = ValueError"
  shows "parse_sli_json lib wd now sli_json =
           (Inr (constructed lib wd now cfgs), skipped lib wd now cfgs) \<and>
         length (constructed lib wd now cfgs) + length (skipped lib wd now cfgs) = length cfgs \<and>
         (\<forall>(n, c) \<in> set cfgs. \<forall>kw. c = JObj kw \<longrightarrow>
            map_of kw ''numerator'' = None \<or> map_of kw ''denominator'' = None \<longrightarrow>
            SLI_init lib wd now c = Inl TypeError)"
  using assms parse_items_acc [of cfgs "[]" lib wd now "[]"]
  by (auto simp: parse_sli_json_def constructed_skipped_length SLI_init_missing_field)

text \<open>The example configuration: three entries built, one skipped.\<close>

theorem parse_sli_json_keeps_constructible_witness:
  "fst (parse_sli_json ex_json_lib 30 ex_now ex_slis_text) = Inr (constructed ex_json_lib 30 ex_now ex_slis_items) \<and>
   map fst (constructed ex_json_lib 30 ex_now ex_slis_items) = [''ok'', ''negative'', ''bogus''] \<and>
   skipped ex_json_lib 30 ex_now ex_slis_items = [SkipMsg ''broken'' TypeError]"
proof -
  have l: "json_loads ex_json_lib ex_slis_text = Some (JObj ex_slis_items)"
    by (simp add: ex_json_lib_def ex_slis_json_def)
  have d: "distinct (map fst ex_slis_items)"
    by (simp add: ex_slis_items_def)
  have c: "\<forall>(n, c) \<in> set ex_slis_items. \<forall>e. SLI_init ex_json_lib 30 ex_now c = Inl e \<longrightarrow>
             e = KeyError \<or> e = TypeError \<or> e = ValueError"
    by (simp add: ex_slis_items_def ex_slis_built)
  have k: "map fst (constructed ex_json_lib 30 ex_now ex_slis_items) = [''ok'', ''negative'', ''bogus'']"
    "skipped ex_json_lib 30 ex_now ex_slis_items = [SkipMsg ''broken'' TypeError]"
    by (simp_all add: ex_slis_items_def ex_slis_built)
  from parse_sli_json_keeps_constructible [OF l d c] k show ?thesis by simp
qed


subsection \<open>Publishing\<close>


















end
